theory Spec2Isabelle
  imports Main "HOL-Library.Word"
begin

unbundle bit_operations_syntax

section \<open>IS31FL3235A 28-channel LED driver: data model\<close>

text \<open>
  The driver (\<^verbatim>\<open>src/driver/is31fl3235a.c\<close>) keeps a per-device mirror of the chip's
  PWM and LED-control registers and talks to the chip through the I2C bus and an
  optional shutdown (SDB) pin.  The embedding passes the device explicitly: the
  read-only configuration, the runtime data and the environment the driver acts on.
  The mutex of the C code serialises callers; the model is sequential and leaves it out.
\<close>

type_synonym u8 = "8 word"
type_synonym u32 = "32 word"

subsection \<open>Register definitions (\<^verbatim>\<open>is31fl3235a_regs.h\<close>)\<close>

definition IS31FL3235A_REG_SHUTDOWN :: u8 where "IS31FL3235A_REG_SHUTDOWN = 0x00"
definition IS31FL3235A_REG_PWM_BASE :: nat where "IS31FL3235A_REG_PWM_BASE = 0x05"
definition IS31FL3235A_REG_UPDATE :: u8 where "IS31FL3235A_REG_UPDATE = 0x25"
definition IS31FL3235A_REG_CTRL_BASE :: nat where "IS31FL3235A_REG_CTRL_BASE = 0x2A"
definition IS31FL3235A_REG_FREQ :: u8 where "IS31FL3235A_REG_FREQ = 0x4B"
definition IS31FL3235A_REG_RESET :: u8 where "IS31FL3235A_REG_RESET = 0x4F"

text \<open>
  \<^verbatim>\<open>IS31FL3235A_PWM_REG(ch)\<close> and \<^verbatim>\<open>IS31FL3235A_CTRL_REG(ch)\<close> add the channel to the
  base address; every use passes the sum to a \<^verbatim>\<open>uint8_t\<close> parameter, so the value that
  reaches the bus is the sum modulo 256.  The channel is given by its numeric value.
\<close>

definition IS31FL3235A_PWM_REG :: "nat \<Rightarrow> u8" where
  "IS31FL3235A_PWM_REG ch = of_nat (IS31FL3235A_REG_PWM_BASE + ch)"

definition IS31FL3235A_CTRL_REG :: "nat \<Rightarrow> u8" where
  "IS31FL3235A_CTRL_REG ch = of_nat (IS31FL3235A_REG_CTRL_BASE + ch)"

definition IS31FL3235A_NUM_CHANNELS :: nat where "IS31FL3235A_NUM_CHANNELS = 28"

definition IS31FL3235A_SHUTDOWN_MODE :: u8 where "IS31FL3235A_SHUTDOWN_MODE = 0x00"
definition IS31FL3235A_SHUTDOWN_NORMAL :: u8 where "IS31FL3235A_SHUTDOWN_NORMAL = 0x01"
definition IS31FL3235A_UPDATE_TRIGGER :: u8 where "IS31FL3235A_UPDATE_TRIGGER = 0x00"
definition IS31FL3235A_CTRL_SL_SHIFT :: nat where "IS31FL3235A_CTRL_SL_SHIFT = 1"
definition IS31FL3235A_CTRL_SL_MASK :: u8 where "IS31FL3235A_CTRL_SL_MASK = 0x06"
definition IS31FL3235A_CTRL_OUT_ENABLE :: u8 where "IS31FL3235A_CTRL_OUT_ENABLE = push_bit 0 1"
definition IS31FL3235A_CTRL_SL_1X :: u8 where
  "IS31FL3235A_CTRL_SL_1X = push_bit IS31FL3235A_CTRL_SL_SHIFT 0"
definition IS31FL3235A_CTRL_ENABLE_1X :: u8 where
  "IS31FL3235A_CTRL_ENABLE_1X = IS31FL3235A_CTRL_OUT_ENABLE OR IS31FL3235A_CTRL_SL_1X"
definition IS31FL3235A_FREQ_3KHZ :: u8 where "IS31FL3235A_FREQ_3KHZ = 0x00"
definition IS31FL3235A_FREQ_22KHZ :: u8 where "IS31FL3235A_FREQ_22KHZ = 0x01"
definition IS31FL3235A_RESET_TRIGGER :: u8 where "IS31FL3235A_RESET_TRIGGER = 0x00"
definition IS31FL3235A_RESET_DELAY_MS :: nat where "IS31FL3235A_RESET_DELAY_MS = 1"
definition IS31FL3235A_STARTUP_DELAY_MS :: nat where "IS31FL3235A_STARTUP_DELAY_MS = 1"
definition IS31FL3235A_PWM_MIN :: u8 where "IS31FL3235A_PWM_MIN = 0x00"
definition IS31FL3235A_PWM_MAX :: u8 where "IS31FL3235A_PWM_MAX = 0xFF"

text \<open>\<^verbatim>\<open>enum is31fl3235a_current_scale\<close>: the largest enumerator, used by the range check.\<close>

definition IS31FL3235A_SCALE_1_4X :: u32 where "IS31FL3235A_SCALE_1_4X = 3"

subsection \<open>Configuration, runtime data and environment\<close>

text \<open>
  \<^verbatim>\<open>struct is31fl3235a_cfg\<close>: \<open>sdb_gpio_port\<close> says whether \<^verbatim>\<open>sdb_gpio.port\<close> is
  non-null, i.e. whether a shutdown pin is configured.
\<close>

record is31fl3235a_cfg =
  sdb_gpio_port :: bool
  pwm_freq_22khz :: bool

text \<open>\<^verbatim>\<open>struct is31fl3235a_data\<close>; the two caches are arrays of 28 bytes.\<close>

record is31fl3235a_data =
  initialized :: bool
  sw_shutdown :: bool
  hw_shutdown :: bool
  pwm_cache :: "u8 list"
  ctrl_cache :: "u8 list"

definition wf_data :: "is31fl3235a_data \<Rightarrow> bool" where
  "wf_data d \<longleftrightarrow>
     length (pwm_cache d) = IS31FL3235A_NUM_CHANNELS \<and>
     length (ctrl_cache d) = IS31FL3235A_NUM_CHANNELS"

text \<open>
  The environment.  Every call the driver makes into the bus, the pin or the kernel
  timer is appended to \<open>trace\<close>, with the return code the callee gave.  The callees
  are external: what the next bus or pin call returns is scripted by \<open>i2c_rets\<close> and
  \<open>gpio_rets\<close> (head first; an exhausted script answers 0, success), so that any
  pattern of failures can be put in front of the driver.
\<close>

datatype event =
    I2C_Write "u8 list" int
  | Gpio_Configure int
  | Gpio_Set bool int
  | Sleep nat

record world =
  trace :: "event list"
  i2c_rets :: "int list"
  gpio_rets :: "int list"
  i2c_bus_ready :: bool
  sdb_port_ready :: bool

record device =
  dev_config :: is31fl3235a_cfg
  dev_data :: is31fl3235a_data
  dev_env :: world

text \<open>
  Return codes.  The C functions return 0 or a negative errno; the model keeps where an
  error came from: \<open>EINVAL\<close>, \<open>ENOTSUP\<close> and \<open>ENODEV\<close> are raised by the driver
  itself, \<open>TransportError r\<close> and \<open>PinError r\<close> carry the negative code \<open>r\<close> that the
  bus or the pin returned, handed on verbatim.  The driver tests every callee result
  with \<^verbatim>\<open>ret < 0\<close>, so any non-negative code is success.
\<close>

datatype error = EINVAL | ENOTSUP | ENODEV | TransportError int | PinError int

type_synonym status = "error + unit"

abbreviation OK :: status where "OK \<equiv> Inr ()"

subsection \<open>Calls into the environment\<close>

definition i2c_write_dt :: "u8 list \<Rightarrow> world \<Rightarrow> int \<times> world" where
  "i2c_write_dt buf w =
     (case i2c_rets w of
        [] \<Rightarrow> (0, w\<lparr>trace := trace w @ [I2C_Write buf 0]\<rparr>)
      | r # rs \<Rightarrow> (r, w\<lparr>trace := trace w @ [I2C_Write buf r], i2c_rets := rs\<rparr>))"

definition gpio_pin_configure_dt :: "world \<Rightarrow> int \<times> world" where
  "gpio_pin_configure_dt w =
     (case gpio_rets w of
        [] \<Rightarrow> (0, w\<lparr>trace := trace w @ [Gpio_Configure 0]\<rparr>)
      | r # rs \<Rightarrow> (r, w\<lparr>trace := trace w @ [Gpio_Configure r], gpio_rets := rs\<rparr>))"

definition gpio_pin_set_dt :: "bool \<Rightarrow> world \<Rightarrow> int \<times> world" where
  "gpio_pin_set_dt level w =
     (case gpio_rets w of
        [] \<Rightarrow> (0, w\<lparr>trace := trace w @ [Gpio_Set level 0]\<rparr>)
      | r # rs \<Rightarrow> (r, w\<lparr>trace := trace w @ [Gpio_Set level r], gpio_rets := rs\<rparr>))"

definition k_msleep :: "nat \<Rightarrow> device \<Rightarrow> device" where
  "k_msleep ms dev = dev\<lparr>dev_env := (dev_env dev)\<lparr>trace := trace (dev_env dev) @ [Sleep ms]\<rparr>\<rparr>"

section \<open>The driver\<close>

subsection \<open>Register access helpers\<close>

definition is31fl3235a_write_reg :: "u8 \<Rightarrow> u8 \<Rightarrow> device \<Rightarrow> status \<times> device" where
  "is31fl3235a_write_reg reg val dev =
     (case i2c_write_dt [reg, val] (dev_env dev) of
        (ret, w) \<Rightarrow>
          if ret < 0 then (Inl (TransportError ret), dev\<lparr>dev_env := w\<rparr>)
          else (OK, dev\<lparr>dev_env := w\<rparr>))"

text \<open>
  \<^verbatim>\<open>is31fl3235a_write_buffer\<close>: \<open>buf\<close> is the memory behind the C pointer (\<open>buf i\<close> is
  \<^verbatim>\<open>buf[i]\<close>), \<open>len\<close> the \<^verbatim>\<open>size_t\<close> length.  The local \<^verbatim>\<open>write_buf\<close> has 256 bytes,
  so lengths above 255 are refused before the bus is touched.
\<close>

definition is31fl3235a_write_buffer ::
    "u8 \<Rightarrow> (nat \<Rightarrow> u8) \<Rightarrow> nat \<Rightarrow> device \<Rightarrow> status \<times> device" where
  "is31fl3235a_write_buffer start_reg buf len dev =
     (if len > 256 - 1 then (Inl EINVAL, dev)
      else
        case i2c_write_dt (start_reg # map buf [0..<len]) (dev_env dev) of
          (ret, w) \<Rightarrow>
            if ret < 0 then (Inl (TransportError ret), dev\<lparr>dev_env := w\<rparr>)
            else (OK, dev\<lparr>dev_env := w\<rparr>))"

definition is31fl3235a_trigger_update :: "device \<Rightarrow> status \<times> device" where
  "is31fl3235a_trigger_update dev =
     is31fl3235a_write_reg IS31FL3235A_REG_UPDATE IS31FL3235A_UPDATE_TRIGGER dev"

text \<open>
  \<^verbatim>\<open>memcpy(&cache[off], src, n)\<close> into one of the cache arrays: byte \<open>i\<close> of the source
  goes to index \<open>off + i\<close>.
\<close>

primrec memcpy_cache :: "u8 list \<Rightarrow> nat \<Rightarrow> (nat \<Rightarrow> u8) \<Rightarrow> nat \<Rightarrow> u8 list" where
  "memcpy_cache dst off src 0 = dst"
| "memcpy_cache dst off src (Suc n) = (memcpy_cache dst off src n)[off + n := src n]"

definition set_pwm_cache :: "u8 list \<Rightarrow> device \<Rightarrow> device" where
  "set_pwm_cache c dev = dev\<lparr>dev_data := (dev_data dev)\<lparr>pwm_cache := c\<rparr>\<rparr>"

definition set_ctrl_cache :: "u8 list \<Rightarrow> device \<Rightarrow> device" where
  "set_ctrl_cache c dev = dev\<lparr>dev_data := (dev_data dev)\<lparr>ctrl_cache := c\<rparr>\<rparr>"

subsection \<open>Standard LED API\<close>

definition is31fl3235a_led_set_brightness :: "u32 \<Rightarrow> u8 \<Rightarrow> device \<Rightarrow> status \<times> device" where
  "is31fl3235a_led_set_brightness led val dev =
     (if unat led \<ge> IS31FL3235A_NUM_CHANNELS then (Inl EINVAL, dev)
      else
        case is31fl3235a_write_reg (IS31FL3235A_PWM_REG (unat led)) val dev of
          (Inl e, dev1) \<Rightarrow> (Inl e, dev1)
        | (Inr _, dev1) \<Rightarrow>
            is31fl3235a_trigger_update
              (set_pwm_cache ((pwm_cache (dev_data dev1))[unat led := val]) dev1))"

text \<open>
  The range check of the batch writes is done on \<^verbatim>\<open>uint32_t\<close> values: the sum
  \<^verbatim>\<open>start_channel + num_channels\<close> wraps modulo \<open>2 ^ 32\<close> before it is compared.
\<close>

definition is31fl3235a_led_write_channels ::
    "u32 \<Rightarrow> u32 \<Rightarrow> (nat \<Rightarrow> u8) \<Rightarrow> device \<Rightarrow> status \<times> device" where
  "is31fl3235a_led_write_channels start_channel num_channels buf dev =
     (if unat start_channel \<ge> IS31FL3235A_NUM_CHANNELS then (Inl EINVAL, dev)
      else if unat (start_channel + num_channels) > IS31FL3235A_NUM_CHANNELS
        then (Inl EINVAL, dev)
      else
        case is31fl3235a_write_buffer (IS31FL3235A_PWM_REG (unat start_channel)) buf
               (unat num_channels) dev of
          (Inl e, dev1) \<Rightarrow> (Inl e, dev1)
        | (Inr _, dev1) \<Rightarrow>
            is31fl3235a_trigger_update
              (set_pwm_cache
                 (memcpy_cache (pwm_cache (dev_data dev1)) (unat start_channel) buf
                    (unat num_channels)) dev1))"

definition is31fl3235a_led_on :: "u32 \<Rightarrow> device \<Rightarrow> status \<times> device" where
  "is31fl3235a_led_on led dev = is31fl3235a_led_set_brightness led IS31FL3235A_PWM_MAX dev"

definition is31fl3235a_led_off :: "u32 \<Rightarrow> device \<Rightarrow> status \<times> device" where
  "is31fl3235a_led_off led dev = is31fl3235a_led_set_brightness led IS31FL3235A_PWM_MIN dev"

subsection \<open>Extended API\<close>

text \<open>
  \<^verbatim>\<open>is31fl3235a_set_current_scale\<close>: the channel is a \<^verbatim>\<open>uint8_t\<close>; the scale is the enum,
  an unsigned 32-bit value that the function range-checks itself.  The control byte is
  read from the cache, its scale field replaced, and the result truncated to a byte.
\<close>

definition is31fl3235a_set_current_scale :: "u8 \<Rightarrow> u32 \<Rightarrow> device \<Rightarrow> status \<times> device" where
  "is31fl3235a_set_current_scale channel scale dev =
     (if unat channel \<ge> IS31FL3235A_NUM_CHANNELS then (Inl EINVAL, dev)
      else if scale > IS31FL3235A_SCALE_1_4X then (Inl EINVAL, dev)
      else
        let ctrl_val = ctrl_cache (dev_data dev) ! unat channel;
            ctrl_val = ctrl_val AND NOT IS31FL3235A_CTRL_SL_MASK;
            ctrl_val = ctrl_val OR ucast (push_bit IS31FL3235A_CTRL_SL_SHIFT scale)
        in
          case is31fl3235a_write_reg (IS31FL3235A_CTRL_REG (unat channel)) ctrl_val dev of
            (Inl e, dev1) \<Rightarrow> (Inl e, dev1)
          | (Inr _, dev1) \<Rightarrow>
              is31fl3235a_trigger_update
                (set_ctrl_cache ((ctrl_cache (dev_data dev1))[unat channel := ctrl_val]) dev1))"

definition is31fl3235a_channel_enable :: "u8 \<Rightarrow> bool \<Rightarrow> device \<Rightarrow> status \<times> device" where
  "is31fl3235a_channel_enable channel enable dev =
     (if unat channel \<ge> IS31FL3235A_NUM_CHANNELS then (Inl EINVAL, dev)
      else
        let ctrl_val = ctrl_cache (dev_data dev) ! unat channel;
            ctrl_val = (if enable then ctrl_val OR IS31FL3235A_CTRL_OUT_ENABLE
                        else ctrl_val AND NOT IS31FL3235A_CTRL_OUT_ENABLE)
        in
          case is31fl3235a_write_reg (IS31FL3235A_CTRL_REG (unat channel)) ctrl_val dev of
            (Inl e, dev1) \<Rightarrow> (Inl e, dev1)
          | (Inr _, dev1) \<Rightarrow>
              is31fl3235a_trigger_update
                (set_ctrl_cache ((ctrl_cache (dev_data dev1))[unat channel := ctrl_val]) dev1))"

text \<open>
  The loop of \<^verbatim>\<open>is31fl3235a_channels_enable\<close> that fills the local \<^verbatim>\<open>ctrl_buf\<close>: entry
  \<open>i\<close> is the cached control byte of channel \<open>start + i\<close> with its enable bit set or
  cleared.  \<open>enable i\<close> is \<^verbatim>\<open>enable[i]\<close>.
\<close>

function ctrl_buf_fill ::
    "u8 list \<Rightarrow> nat \<Rightarrow> nat \<Rightarrow> (nat \<Rightarrow> bool) \<Rightarrow> nat \<Rightarrow> (nat \<Rightarrow> u8) \<Rightarrow> (nat \<Rightarrow> u8)" where
  "ctrl_buf_fill ctrl start_channel num_channels enable i ctrl_buf =
     (if i < num_channels then
        let ctrl_val = ctrl ! (start_channel + i);
            ctrl_val = (if enable i then ctrl_val OR IS31FL3235A_CTRL_OUT_ENABLE
                        else ctrl_val AND NOT IS31FL3235A_CTRL_OUT_ENABLE)
        in ctrl_buf_fill ctrl start_channel num_channels enable (i + 1)
             (ctrl_buf(i := ctrl_val))
      else ctrl_buf)"
  by pat_completeness auto
termination
  by (relation "measure (\<lambda>(ctrl, s, n, en, i, b). n - i)") auto

declare ctrl_buf_fill.simps [simp del]

text \<open>
  Both arguments are \<^verbatim>\<open>uint8_t\<close> and are promoted to \<^verbatim>\<open>int\<close> before they are added, so
  this range check is exact.  The local buffer is not initialised in C; only the entries
  the loop has written are read afterwards.
\<close>

definition is31fl3235a_channels_enable ::
    "u8 \<Rightarrow> u8 \<Rightarrow> (nat \<Rightarrow> bool) \<Rightarrow> device \<Rightarrow> status \<times> device" where
  "is31fl3235a_channels_enable start_channel num_channels enable dev =
     (if unat start_channel \<ge> IS31FL3235A_NUM_CHANNELS then (Inl EINVAL, dev)
      else if unat start_channel + unat num_channels > IS31FL3235A_NUM_CHANNELS
        then (Inl EINVAL, dev)
      else
        let ctrl_buf = ctrl_buf_fill (ctrl_cache (dev_data dev)) (unat start_channel)
                         (unat num_channels) enable 0 (\<lambda>_. 0)
        in
          case is31fl3235a_write_buffer (IS31FL3235A_CTRL_REG (unat start_channel)) ctrl_buf
                 (unat num_channels) dev of
            (Inl e, dev1) \<Rightarrow> (Inl e, dev1)
          | (Inr _, dev1) \<Rightarrow>
              is31fl3235a_trigger_update
                (set_ctrl_cache
                   (memcpy_cache (ctrl_cache (dev_data dev1)) (unat start_channel) ctrl_buf
                      (unat num_channels)) dev1))"

definition is31fl3235a_sw_shutdown :: "bool \<Rightarrow> device \<Rightarrow> status \<times> device" where
  "is31fl3235a_sw_shutdown shutdown dev =
     (let val = (if shutdown then IS31FL3235A_SHUTDOWN_MODE else IS31FL3235A_SHUTDOWN_NORMAL)
      in
        case is31fl3235a_write_reg IS31FL3235A_REG_SHUTDOWN val dev of
          (Inl e, dev1) \<Rightarrow> (Inl e, dev1)
        | (Inr _, dev1) \<Rightarrow>
            (OK, dev1\<lparr>dev_data := (dev_data dev1)\<lparr>sw_shutdown := shutdown\<rparr>\<rparr>))"

text \<open>
  \<^verbatim>\<open>is31fl3235a_hw_shutdown\<close>: the pin is driven low to shut down, high to wake.  On
  success the C function returns the pin call's own code (\<^verbatim>\<open>return ret\<close>), which need
  not be 0, so the success value carries it.
\<close>

definition is31fl3235a_hw_shutdown :: "bool \<Rightarrow> device \<Rightarrow> (error + int) \<times> device" where
  "is31fl3235a_hw_shutdown shutdown dev =
     (if \<not> sdb_gpio_port (dev_config dev) then (Inl ENOTSUP, dev)
      else
        case gpio_pin_set_dt (\<not> shutdown) (dev_env dev) of
          (ret, w) \<Rightarrow>
            if ret < 0 then (Inl (PinError ret), dev\<lparr>dev_env := w\<rparr>)
            else
              let dev1 = dev\<lparr>dev_env := w,
                             dev_data := (dev_data dev)\<lparr>hw_shutdown := shutdown\<rparr>\<rparr>;
                  dev2 = (if \<not> shutdown then k_msleep IS31FL3235A_STARTUP_DELAY_MS dev1
                          else dev1)
              in (Inr ret, dev2))"

definition is31fl3235a_update :: "device \<Rightarrow> status \<times> device" where
  "is31fl3235a_update dev = is31fl3235a_trigger_update dev"

definition is31fl3235a_set_brightness_no_update ::
    "u32 \<Rightarrow> u8 \<Rightarrow> device \<Rightarrow> status \<times> device" where
  "is31fl3235a_set_brightness_no_update led val dev =
     (if unat led \<ge> IS31FL3235A_NUM_CHANNELS then (Inl EINVAL, dev)
      else
        case is31fl3235a_write_reg (IS31FL3235A_PWM_REG (unat led)) val dev of
          (Inl e, dev1) \<Rightarrow> (Inl e, dev1)
        | (Inr _, dev1) \<Rightarrow>
            (OK, set_pwm_cache ((pwm_cache (dev_data dev1))[unat led := val]) dev1))"

definition is31fl3235a_write_channels_no_update ::
    "u32 \<Rightarrow> u32 \<Rightarrow> (nat \<Rightarrow> u8) \<Rightarrow> device \<Rightarrow> status \<times> device" where
  "is31fl3235a_write_channels_no_update start_channel num_channels buf dev =
     (if unat start_channel \<ge> IS31FL3235A_NUM_CHANNELS then (Inl EINVAL, dev)
      else if unat (start_channel + num_channels) > IS31FL3235A_NUM_CHANNELS
        then (Inl EINVAL, dev)
      else
        case is31fl3235a_write_buffer (IS31FL3235A_PWM_REG (unat start_channel)) buf
               (unat num_channels) dev of
          (Inl e, dev1) \<Rightarrow> (Inl e, dev1)
        | (Inr _, dev1) \<Rightarrow>
            (OK, set_pwm_cache
                   (memcpy_cache (pwm_cache (dev_data dev1)) (unat start_channel) buf
                      (unat num_channels)) dev1))"

subsection \<open>Initialisation\<close>

text \<open>
  The channel loop of \<^verbatim>\<open>is31fl3235a_init\<close>, from index \<open>i\<close> on: PWM register to 0,
  cache to 0, control register to "enabled, 1x", cache accordingly; the first failing
  write returns.
\<close>

function init_channels :: "nat \<Rightarrow> device \<Rightarrow> status \<times> device" where
  "init_channels i dev =
     (if i < IS31FL3235A_NUM_CHANNELS then
        case is31fl3235a_write_reg (IS31FL3235A_PWM_REG i) 0 dev of
          (Inl e, dev1) \<Rightarrow> (Inl e, dev1)
        | (Inr _, dev1) \<Rightarrow>
            let dev2 = set_pwm_cache ((pwm_cache (dev_data dev1))[i := 0]) dev1;
                ctrl = IS31FL3235A_CTRL_ENABLE_1X
            in
              (case is31fl3235a_write_reg (IS31FL3235A_CTRL_REG i) ctrl dev2 of
                 (Inl e, dev3) \<Rightarrow> (Inl e, dev3)
               | (Inr _, dev3) \<Rightarrow>
                   init_channels (i + 1)
                     (set_ctrl_cache ((ctrl_cache (dev_data dev3))[i := ctrl]) dev3))
      else (OK, dev))"
  by pat_completeness auto
termination
  by (relation "measure (\<lambda>(i, dev). IS31FL3235A_NUM_CHANNELS - i)") auto

declare init_channels.simps [simp del]

text \<open>The optional shutdown-pin part of the initialisation.\<close>

definition init_sdb :: "device \<Rightarrow> status \<times> device" where
  "init_sdb dev =
     (if sdb_gpio_port (dev_config dev) then
        if \<not> sdb_port_ready (dev_env dev) then (Inl ENODEV, dev)
        else
          case gpio_pin_configure_dt (dev_env dev) of
            (ret, w) \<Rightarrow>
              if ret < 0 then (Inl (PinError ret), dev\<lparr>dev_env := w\<rparr>)
              else
                (case gpio_pin_set_dt True w of
                   (ret, w') \<Rightarrow>
                     if ret < 0 then (Inl (PinError ret), dev\<lparr>dev_env := w'\<rparr>)
                     else
                       (OK, k_msleep IS31FL3235A_STARTUP_DELAY_MS
                              (dev\<lparr>dev_env := w',
                                   dev_data := (dev_data dev)\<lparr>hw_shutdown := False\<rparr>\<rparr>)))
      else (OK, dev))"

definition is31fl3235a_init :: "device \<Rightarrow> status \<times> device" where
  "is31fl3235a_init dev =
     (if \<not> i2c_bus_ready (dev_env dev) then (Inl ENODEV, dev)
      else
        case init_sdb dev of
          (Inl e, dev1) \<Rightarrow> (Inl e, dev1)
        | (Inr _, dev1) \<Rightarrow>
        (case is31fl3235a_write_reg IS31FL3235A_REG_RESET IS31FL3235A_RESET_TRIGGER dev1 of
          (Inl e, dev2) \<Rightarrow> (Inl e, dev2)
        | (Inr _, dev2) \<Rightarrow>
        (case is31fl3235a_write_reg IS31FL3235A_REG_SHUTDOWN IS31FL3235A_SHUTDOWN_NORMAL
               (k_msleep IS31FL3235A_RESET_DELAY_MS dev2) of
          (Inl e, dev3) \<Rightarrow> (Inl e, dev3)
        | (Inr _, dev3) \<Rightarrow>
        (let dev4 = dev3\<lparr>dev_data := (dev_data dev3)\<lparr>sw_shutdown := False\<rparr>\<rparr>;
             freq_val = (if pwm_freq_22khz (dev_config dev4) then IS31FL3235A_FREQ_22KHZ
                         else IS31FL3235A_FREQ_3KHZ)
         in
        (case is31fl3235a_write_reg IS31FL3235A_REG_FREQ freq_val dev4 of
          (Inl e, dev5) \<Rightarrow> (Inl e, dev5)
        | (Inr _, dev5) \<Rightarrow>
        (case init_channels 0 dev5 of
          (Inl e, dev6) \<Rightarrow> (Inl e, dev6)
        | (Inr _, dev6) \<Rightarrow>
        (case is31fl3235a_trigger_update dev6 of
          (Inl e, dev7) \<Rightarrow> (Inl e, dev7)
        | (Inr _, dev7) \<Rightarrow>
            (OK, dev7\<lparr>dev_data := (dev_data dev7)\<lparr>initialized := True\<rparr>\<rparr>))))))))"

section \<open>Observations on a run\<close>

text \<open>The return code the next bus call will get.\<close>

definition i2c_next :: "world \<Rightarrow> int" where
  "i2c_next w = (case i2c_rets w of [] \<Rightarrow> 0 | r # _ \<Rightarrow> r)"

text \<open>The return code the bus call after the next will get.\<close>

definition i2c_next2 :: "world \<Rightarrow> int" where
  "i2c_next2 w = (case i2c_rets w of [] \<Rightarrow> 0 | [r] \<Rightarrow> 0 | r # r' # _ \<Rightarrow> r')"

text \<open>A succeeding transport: no scripted bus call fails; likewise for the pin.\<close>

definition transport_ok :: "world \<Rightarrow> bool" where
  "transport_ok w \<longleftrightarrow> list_all (\<lambda>r. 0 \<le> r) (i2c_rets w)"

definition pin_ok :: "world \<Rightarrow> bool" where
  "pin_ok w \<longleftrightarrow> list_all (\<lambda>r. 0 \<le> r) (gpio_rets w)"

text \<open>The calls into the environment made between two device states.\<close>

definition new_events :: "device \<Rightarrow> device \<Rightarrow> event list" where
  "new_events dev dev' = drop (length (trace (dev_env dev))) (trace (dev_env dev'))"

text \<open>
  A bus write \<^verbatim>\<open>{reg, b0, b1, ...}\<close> stores \<open>b0\<close> at \<open>reg\<close>, \<open>b1\<close> at \<open>reg + 1\<close> and so
  on (the "consecutive registers" of \<^verbatim>\<open>is31fl3235a_write_buffer\<close>).  It is a write to
  the update register when one of its data bytes lands on \<open>IS31FL3235A_REG_UPDATE\<close>,
  whatever the bus answered.
\<close>

fun is_trigger_write :: "event \<Rightarrow> bool" where
  "is_trigger_write (I2C_Write [] ret) = False"
| "is_trigger_write (I2C_Write (reg # bytes) ret) =
     (IS31FL3235A_REG_UPDATE \<in> set (map (\<lambda>i. reg + of_nat i) [0..<length bytes]))"
| "is_trigger_write (Gpio_Configure ret) = False"
| "is_trigger_write (Gpio_Set level ret) = False"
| "is_trigger_write (Sleep ms) = False"

definition trigger_writes :: "event list \<Rightarrow> nat" where
  "trigger_writes evs = length (filter is_trigger_write evs)"

text \<open>The two fields of a control byte: bit 0 enables the output, bits 1-2 select the scale.\<close>

definition ctrl_enabled :: "u8 \<Rightarrow> bool" where
  "ctrl_enabled c \<longleftrightarrow> bit c 0"

definition ctrl_scale :: "u8 \<Rightarrow> u8" where
  "ctrl_scale c = drop_bit IS31FL3235A_CTRL_SL_SHIFT (c AND IS31FL3235A_CTRL_SL_MASK)"

text \<open>
  The control bytes that \<^verbatim>\<open>is31fl3235a_set_current_scale\<close> and
  \<^verbatim>\<open>is31fl3235a_channel_enable\<close> compute from the cached byte \<open>c\<close>.
\<close>

definition scale_byte :: "u8 \<Rightarrow> u32 \<Rightarrow> u8" where
  "scale_byte c scale =
     (c AND NOT IS31FL3235A_CTRL_SL_MASK) OR ucast (push_bit IS31FL3235A_CTRL_SL_SHIFT scale)"

definition enable_byte :: "u8 \<Rightarrow> bool \<Rightarrow> u8" where
  "enable_byte c enable =
     (if enable then c OR IS31FL3235A_CTRL_OUT_ENABLE else c AND NOT IS31FL3235A_CTRL_OUT_ENABLE)"

text \<open>
  The condition under which a batch brightness write gets as far as the bus: both range
  checks pass (the second on the wrapped sum) and the length fits the write buffer.
\<close>

definition range_ok :: "u32 \<Rightarrow> u32 \<Rightarrow> bool" where
  "range_ok s n \<longleftrightarrow> unat s < 28 \<and> unat (s + n) \<le> 28 \<and> unat n \<le> 255"

text \<open>
  A concrete device for the examples: the runtime data as static storage starts out
  (all zero), no shutdown pin, 3 kHz, a ready bus, and a given script of bus results.
\<close>

definition power_on_data :: is31fl3235a_data where
  "power_on_data = \<lparr>initialized = False, sw_shutdown = False, hw_shutdown = False,
                     pwm_cache = replicate 28 0, ctrl_cache = replicate 28 0\<rparr>"

definition example_device :: "int list \<Rightarrow> device" where
  "example_device rets =
     \<lparr>dev_config = \<lparr>sdb_gpio_port = False, pwm_freq_22khz = False\<rparr>,
      dev_data = power_on_data,
      dev_env = \<lparr>trace = [], i2c_rets = rets, gpio_rets = [],
                 i2c_bus_ready = True, sdb_port_ready = True\<rparr>\<rparr>"

text \<open>The two caches of a device, as a pair.\<close>

definition caches :: "device \<Rightarrow> u8 list \<times> u8 list" where
  "caches dev = (pwm_cache (dev_data dev), ctrl_cache (dev_data dev))"

text \<open>
  The body of one round of the channel loop of the initialisation when both of its bus
  writes are accepted: the device after the round.
\<close>

definition init_channel_step :: "nat \<Rightarrow> device \<Rightarrow> device" where
  "init_channel_step i dev =
     set_ctrl_cache ((ctrl_cache (dev_data dev))[i := IS31FL3235A_CTRL_ENABLE_1X])
       (set_pwm_cache ((pwm_cache (dev_data dev))[i := 0])
          (dev\<lparr>dev_env := snd (i2c_write_dt [IS31FL3235A_CTRL_REG i, IS31FL3235A_CTRL_ENABLE_1X]
             (snd (i2c_write_dt [IS31FL3235A_PWM_REG i, 0] (dev_env dev))))\<rparr>))"

text \<open>
  The chip behind the bus, as the driver's own header describes it for
  \<^verbatim>\<open>is31fl3235a_update\<close>: "The IS31FL3235A uses double-buffered registers for PWM and
  LED control values.  Changes are staged in temporary registers and applied
  simultaneously when the update register is written."  \<open>staged\<close> holds what was last
  written to each register, \<open>applied\<close> what the outputs show.  A bus call that failed
  leaves the chip as it was.
\<close>

record chip =
  staged :: "u8 \<Rightarrow> u8"
  applied :: "u8 \<Rightarrow> u8"

fun chip_store :: "u8 \<Rightarrow> u8 list \<Rightarrow> chip \<Rightarrow> chip" where
  "chip_store reg [] c = c"
| "chip_store reg (b # bs) c =
     chip_store (reg + 1) bs
       (if reg = IS31FL3235A_REG_UPDATE then c\<lparr>applied := staged c\<rparr>
        else c\<lparr>staged := (staged c)(reg := b)\<rparr>)"

fun chip_event :: "event \<Rightarrow> chip \<Rightarrow> chip" where
  "chip_event (I2C_Write [] ret) c = c"
| "chip_event (I2C_Write (reg # bytes) ret) c = (if ret < 0 then c else chip_store reg bytes c)"
| "chip_event (Gpio_Configure ret) c = c"
| "chip_event (Gpio_Set level ret) c = c"
| "chip_event (Sleep ms) c = c"

definition chip_after :: "event list \<Rightarrow> chip \<Rightarrow> chip" where
  "chip_after evs c = fold chip_event evs c"

text \<open>
  The public operations as values, and a device driven through a sequence of calls.
  Only the device after each call is kept: the return code is dropped, as a caller is
  free to do.
\<close>

datatype api_call =
    Set_brightness u32 u8
  | Write_channels u32 u32 "nat \<Rightarrow> u8"
  | Led_on u32
  | Led_off u32
  | Set_current_scale u8 u32
  | Channel_enable u8 bool
  | Channels_enable u8 u8 "nat \<Rightarrow> bool"
  | Sw_shutdown bool
  | Hw_shutdown bool
  | Update
  | Set_brightness_no_update u32 u8
  | Write_channels_no_update u32 u32 "nat \<Rightarrow> u8"
  | Init

fun run_call :: "api_call \<Rightarrow> device \<Rightarrow> device" where
  "run_call (Set_brightness led val) dev = snd (is31fl3235a_led_set_brightness led val dev)"
| "run_call (Write_channels s n buf) dev = snd (is31fl3235a_led_write_channels s n buf dev)"
| "run_call (Led_on led) dev = snd (is31fl3235a_led_on led dev)"
| "run_call (Led_off led) dev = snd (is31fl3235a_led_off led dev)"
| "run_call (Set_current_scale ch scale) dev =
     snd (is31fl3235a_set_current_scale ch scale dev)"
| "run_call (Channel_enable ch en) dev = snd (is31fl3235a_channel_enable ch en dev)"
| "run_call (Channels_enable s n en) dev = snd (is31fl3235a_channels_enable s n en dev)"
| "run_call (Sw_shutdown b) dev = snd (is31fl3235a_sw_shutdown b dev)"
| "run_call (Hw_shutdown b) dev = snd (is31fl3235a_hw_shutdown b dev)"
| "run_call Update dev = snd (is31fl3235a_update dev)"
| "run_call (Set_brightness_no_update led val) dev =
     snd (is31fl3235a_set_brightness_no_update led val dev)"
| "run_call (Write_channels_no_update s n buf) dev =
     snd (is31fl3235a_write_channels_no_update s n buf dev)"
| "run_call Init dev = snd (is31fl3235a_init dev)"

primrec run_calls :: "api_call list \<Rightarrow> device \<Rightarrow> device" where
  "run_calls [] dev = dev"
| "run_calls (c # cs) dev = run_calls cs (run_call c dev)"

section \<open>Basic facts\<close>

subsection \<open>The example device\<close>

lemma example_device_simps [simp]:
  "dev_config (example_device rets) = \<lparr>sdb_gpio_port = False, pwm_freq_22khz = False\<rparr>"
  "dev_data (example_device rets) = power_on_data"
  "trace (dev_env (example_device rets)) = []"
  "i2c_rets (dev_env (example_device rets)) = rets"
  "gpio_rets (dev_env (example_device rets)) = []"
  "i2c_bus_ready (dev_env (example_device rets))"
  "sdb_port_ready (dev_env (example_device rets))"
  by (simp_all add: example_device_def)

lemma wf_power_on_data [simp]: "wf_data power_on_data"
  by (simp add: wf_data_def power_on_data_def IS31FL3235A_NUM_CHANNELS_def)

subsection \<open>The bus\<close>

lemma i2c_write_dt_D:
  assumes "i2c_write_dt buf w = (ret, w')"
  shows "ret = i2c_next w"
    and "trace w' = trace w @ [I2C_Write buf (i2c_next w)]"
    and "i2c_rets w' = tl (i2c_rets w)"
    and "gpio_rets w' = gpio_rets w"
    and "i2c_bus_ready w' = i2c_bus_ready w"
    and "sdb_port_ready w' = sdb_port_ready w"
  using assms by (auto simp: i2c_write_dt_def i2c_next_def split: list.splits)

lemma i2c_write_dt_snd [simp]:
  "trace (snd (i2c_write_dt buf w)) = trace w @ [I2C_Write buf (i2c_next w)]"
  "i2c_rets (snd (i2c_write_dt buf w)) = tl (i2c_rets w)"
  "gpio_rets (snd (i2c_write_dt buf w)) = gpio_rets w"
  "i2c_bus_ready (snd (i2c_write_dt buf w)) = i2c_bus_ready w"
  "sdb_port_ready (snd (i2c_write_dt buf w)) = sdb_port_ready w"
  by (simp_all add: i2c_write_dt_def i2c_next_def split: list.splits)

lemma transport_ok_next: "transport_ok w \<Longrightarrow> \<not> i2c_next w < 0"
  by (cases "i2c_rets w") (simp_all add: transport_ok_def i2c_next_def)

lemma transport_ok_step: "transport_ok w \<Longrightarrow> transport_ok (snd (i2c_write_dt buf w))"
  by (cases "i2c_rets w") (simp_all add: transport_ok_def)

lemma set_cache_simps [simp]:
  "dev_data (set_pwm_cache c dev) = (dev_data dev)\<lparr>pwm_cache := c\<rparr>"
  "dev_env (set_pwm_cache c dev) = dev_env dev"
  "dev_config (set_pwm_cache c dev) = dev_config dev"
  "dev_data (set_ctrl_cache c dev) = (dev_data dev)\<lparr>ctrl_cache := c\<rparr>"
  "dev_env (set_ctrl_cache c dev) = dev_env dev"
  "dev_config (set_ctrl_cache c dev) = dev_config dev"
  by (simp_all add: set_pwm_cache_def set_ctrl_cache_def)

subsection \<open>Register writes\<close>

lemma write_reg_unfold:
  "is31fl3235a_write_reg reg val dev =
     (if i2c_next (dev_env dev) < 0 then Inl (TransportError (i2c_next (dev_env dev))) else OK,
      dev\<lparr>dev_env := snd (i2c_write_dt [reg, val] (dev_env dev))\<rparr>)"
  by (cases "i2c_write_dt [reg, val] (dev_env dev)")
     (auto simp: is31fl3235a_write_reg_def dest: i2c_write_dt_D(1))

lemma write_buffer_unfold:
  "is31fl3235a_write_buffer reg buf len dev =
     (if 255 < len then (Inl EINVAL, dev)
      else (if i2c_next (dev_env dev) < 0 then Inl (TransportError (i2c_next (dev_env dev)))
            else OK,
            dev\<lparr>dev_env := snd (i2c_write_dt (reg # map buf [0..<len]) (dev_env dev))\<rparr>))"
  by (cases "i2c_write_dt (reg # map buf [0..<len]) (dev_env dev)")
     (auto simp: is31fl3235a_write_buffer_def dest: i2c_write_dt_D(1))

lemmas trigger_update_unfold =
  is31fl3235a_trigger_update_def [unfolded write_reg_unfold]

lemma trigger_update_proj [simp]:
  "fst (is31fl3235a_trigger_update dev) =
     (if i2c_next (dev_env dev) < 0 then Inl (TransportError (i2c_next (dev_env dev))) else OK)"
  "dev_data (snd (is31fl3235a_trigger_update dev)) = dev_data dev"
  "dev_config (snd (is31fl3235a_trigger_update dev)) = dev_config dev"
  "trace (dev_env (snd (is31fl3235a_trigger_update dev))) =
     trace (dev_env dev) @
     [I2C_Write [IS31FL3235A_REG_UPDATE, IS31FL3235A_UPDATE_TRIGGER] (i2c_next (dev_env dev))]"
  "i2c_rets (dev_env (snd (is31fl3235a_trigger_update dev))) = tl (i2c_rets (dev_env dev))"
  by (simp_all add: trigger_update_unfold)

subsection \<open>Copying into a cache\<close>

lemma length_memcpy_cache [simp]: "length (memcpy_cache dst off src n) = length dst"
  by (induction n) simp_all

lemma nth_memcpy_cache:
  "off + n \<le> length dst \<Longrightarrow>
   memcpy_cache dst off src n ! j = (if off \<le> j \<and> j < off + n then src (j - off) else dst ! j)"
  by (induction n) (auto simp: nth_list_update less_Suc_eq)

subsection \<open>The range check of the batch writes\<close>

lemma wrapped_sum_large:
  fixes a b :: u32
  assumes "unat a < 28" "unat (a + b) \<le> 28" "28 < unat a + unat b"
  shows "255 < unat b"
proof -
  have "unat (a + b) = (unat a + unat b) mod 2 ^ 32"
    by (simp add: unat_word_ariths)
  with assms have "2 ^ 32 \<le> unat a + unat b"
    by (cases "unat a + unat b < 2 ^ 32") simp_all
  with assms(1) show ?thesis by simp
qed

lemma range_ok_exact: "range_ok s n \<longleftrightarrow> unat s < 28 \<and> unat s + unat n \<le> 28"
proof
  assume "range_ok s n"
  then show "unat s < 28 \<and> unat s + unat n \<le> 28"
    using wrapped_sum_large [of s n] by (auto simp: range_ok_def not_less [symmetric])
next
  assume le: "unat s < 28 \<and> unat s + unat n \<le> 28"
  then have "unat (s + n) = unat s + unat n"
    by (simp add: unat_word_ariths)
  with le show "range_ok s n" by (simp add: range_ok_def)
qed

subsection \<open>What each operation does, in one equation\<close>

lemma led_set_brightness_run:
  "is31fl3235a_led_set_brightness led val dev =
     (if 28 \<le> unat led then (Inl EINVAL, dev)
      else if i2c_next (dev_env dev) < 0
        then (Inl (TransportError (i2c_next (dev_env dev))),
              dev\<lparr>dev_env := snd (i2c_write_dt [IS31FL3235A_PWM_REG (unat led), val]
                                    (dev_env dev))\<rparr>)
      else is31fl3235a_trigger_update
             (set_pwm_cache ((pwm_cache (dev_data dev))[unat led := val])
                (dev\<lparr>dev_env := snd (i2c_write_dt [IS31FL3235A_PWM_REG (unat led), val]
                                      (dev_env dev))\<rparr>)))"
  by (simp add: is31fl3235a_led_set_brightness_def write_reg_unfold
      IS31FL3235A_NUM_CHANNELS_def)

lemma set_brightness_no_update_run:
  "is31fl3235a_set_brightness_no_update led val dev =
     (if 28 \<le> unat led then (Inl EINVAL, dev)
      else if i2c_next (dev_env dev) < 0
        then (Inl (TransportError (i2c_next (dev_env dev))),
              dev\<lparr>dev_env := snd (i2c_write_dt [IS31FL3235A_PWM_REG (unat led), val]
                                    (dev_env dev))\<rparr>)
      else (OK, set_pwm_cache ((pwm_cache (dev_data dev))[unat led := val])
                  (dev\<lparr>dev_env := snd (i2c_write_dt [IS31FL3235A_PWM_REG (unat led), val]
                                        (dev_env dev))\<rparr>)))"
  by (simp add: is31fl3235a_set_brightness_no_update_def write_reg_unfold
      IS31FL3235A_NUM_CHANNELS_def)

lemma led_write_channels_run:
  "is31fl3235a_led_write_channels s n buf dev =
     (if \<not> range_ok s n then (Inl EINVAL, dev)
      else if i2c_next (dev_env dev) < 0
        then (Inl (TransportError (i2c_next (dev_env dev))),
              dev\<lparr>dev_env := snd (i2c_write_dt
                  (IS31FL3235A_PWM_REG (unat s) # map buf [0..<unat n]) (dev_env dev))\<rparr>)
      else is31fl3235a_trigger_update
             (set_pwm_cache (memcpy_cache (pwm_cache (dev_data dev)) (unat s) buf (unat n))
                (dev\<lparr>dev_env := snd (i2c_write_dt
                    (IS31FL3235A_PWM_REG (unat s) # map buf [0..<unat n]) (dev_env dev))\<rparr>)))"
  by (simp add: is31fl3235a_led_write_channels_def write_buffer_unfold
      IS31FL3235A_NUM_CHANNELS_def range_ok_def)

lemma write_channels_no_update_run:
  "is31fl3235a_write_channels_no_update s n buf dev =
     (if \<not> range_ok s n then (Inl EINVAL, dev)
      else if i2c_next (dev_env dev) < 0
        then (Inl (TransportError (i2c_next (dev_env dev))),
              dev\<lparr>dev_env := snd (i2c_write_dt
                  (IS31FL3235A_PWM_REG (unat s) # map buf [0..<unat n]) (dev_env dev))\<rparr>)
      else (OK, set_pwm_cache (memcpy_cache (pwm_cache (dev_data dev)) (unat s) buf (unat n))
                  (dev\<lparr>dev_env := snd (i2c_write_dt
                      (IS31FL3235A_PWM_REG (unat s) # map buf [0..<unat n]) (dev_env dev))\<rparr>)))"
  by (simp add: is31fl3235a_write_channels_no_update_def write_buffer_unfold
      IS31FL3235A_NUM_CHANNELS_def range_ok_def)

lemma set_current_scale_run:
  "is31fl3235a_set_current_scale ch scale dev =
     (if 28 \<le> unat ch \<or> 3 < scale then (Inl EINVAL, dev)
      else if i2c_next (dev_env dev) < 0
        then (Inl (TransportError (i2c_next (dev_env dev))),
              dev\<lparr>dev_env := snd (i2c_write_dt [IS31FL3235A_CTRL_REG (unat ch),
                  scale_byte (ctrl_cache (dev_data dev) ! unat ch) scale] (dev_env dev))\<rparr>)
      else is31fl3235a_trigger_update
             (set_ctrl_cache ((ctrl_cache (dev_data dev))
                  [unat ch := scale_byte (ctrl_cache (dev_data dev) ! unat ch) scale])
                (dev\<lparr>dev_env := snd (i2c_write_dt [IS31FL3235A_CTRL_REG (unat ch),
                  scale_byte (ctrl_cache (dev_data dev) ! unat ch) scale] (dev_env dev))\<rparr>)))"
  by (simp add: is31fl3235a_set_current_scale_def write_reg_unfold IS31FL3235A_NUM_CHANNELS_def
      IS31FL3235A_SCALE_1_4X_def scale_byte_def Let_def)

lemma channel_enable_run:
  "is31fl3235a_channel_enable ch en dev =
     (if 28 \<le> unat ch then (Inl EINVAL, dev)
      else if i2c_next (dev_env dev) < 0
        then (Inl (TransportError (i2c_next (dev_env dev))),
              dev\<lparr>dev_env := snd (i2c_write_dt [IS31FL3235A_CTRL_REG (unat ch),
                  enable_byte (ctrl_cache (dev_data dev) ! unat ch) en] (dev_env dev))\<rparr>)
      else is31fl3235a_trigger_update
             (set_ctrl_cache ((ctrl_cache (dev_data dev))
                  [unat ch := enable_byte (ctrl_cache (dev_data dev) ! unat ch) en])
                (dev\<lparr>dev_env := snd (i2c_write_dt [IS31FL3235A_CTRL_REG (unat ch),
                  enable_byte (ctrl_cache (dev_data dev) ! unat ch) en] (dev_env dev))\<rparr>)))"
  by (simp add: is31fl3235a_channel_enable_def write_reg_unfold IS31FL3235A_NUM_CHANNELS_def
      enable_byte_def Let_def)

lemma ctrl_buf_fill_step:
  "i < n \<Longrightarrow> ctrl_buf_fill ctrl s n en i b =
     ctrl_buf_fill ctrl s n en (Suc i) (b(i := enable_byte (ctrl ! (s + i)) (en i)))"
  "\<not> i < n \<Longrightarrow> ctrl_buf_fill ctrl s n en i b = b"
  by (subst ctrl_buf_fill.simps, simp add: enable_byte_def Let_def)+

lemma ctrl_buf_fill_apply:
  "ctrl_buf_fill ctrl s n en i b j =
     (if i \<le> j \<and> j < n then enable_byte (ctrl ! (s + j)) (en j) else b j)"
proof (induction "n - i" arbitrary: i b)
  case 0
  then show ?case by (auto simp: ctrl_buf_fill_step(2))
next
  case (Suc k)
  then have "i < n" and "k = n - Suc i" by simp_all
  with Suc.hyps(1) [of "Suc i"] show ?case
    by (auto simp: ctrl_buf_fill_step(1))
qed

lemma channels_enable_run:
  "is31fl3235a_channels_enable s n en dev =
     (let buf = ctrl_buf_fill (ctrl_cache (dev_data dev)) (unat s) (unat n) en 0 (\<lambda>_. 0) in
      if 28 < unat s + unat n \<or> 28 \<le> unat s then (Inl EINVAL, dev)
      else if i2c_next (dev_env dev) < 0
        then (Inl (TransportError (i2c_next (dev_env dev))),
              dev\<lparr>dev_env := snd (i2c_write_dt
                  (IS31FL3235A_CTRL_REG (unat s) # map buf [0..<unat n]) (dev_env dev))\<rparr>)
      else is31fl3235a_trigger_update
             (set_ctrl_cache (memcpy_cache (ctrl_cache (dev_data dev)) (unat s) buf (unat n))
                (dev\<lparr>dev_env := snd (i2c_write_dt
                    (IS31FL3235A_CTRL_REG (unat s) # map buf [0..<unat n]) (dev_env dev))\<rparr>)))"
  by (auto simp: is31fl3235a_channels_enable_def write_buffer_unfold
      IS31FL3235A_NUM_CHANNELS_def Let_def)

subsection \<open>Return codes along a run, and the caches\<close>

lemma i2c_next_example [simp]:
  "i2c_next (dev_env (example_device [])) = 0"
  "i2c_next (dev_env (example_device (r # rs))) = r"
  by (simp_all add: i2c_next_def)

lemma i2c_next_after [simp]:
  "i2c_next (snd (i2c_write_dt buf w)) = i2c_next (w\<lparr>i2c_rets := tl (i2c_rets w)\<rparr>)"
  by (simp add: i2c_next_def)

lemma i2c_next_rets [simp]:
  "i2c_next (w\<lparr>i2c_rets := []\<rparr>) = 0"
  "i2c_next (w\<lparr>i2c_rets := r # rs\<rparr>) = r"
  by (simp_all add: i2c_next_def)


lemma i2c_next_tl: "i2c_next (w\<lparr>i2c_rets := tl (i2c_rets w)\<rparr>) = i2c_next2 w"
  by (simp add: i2c_next_def i2c_next2_def split: list.splits)

lemma i2c_next2_example [simp]:
  "i2c_next2 (dev_env (example_device [r, r'])) = r'"
  "i2c_next2 (dev_env (example_device [r])) = 0"
  by (simp_all add: i2c_next2_def)

lemma caches_simps [simp]:
  "caches (snd (is31fl3235a_trigger_update dev)) = caches dev"
  "caches (dev\<lparr>dev_env := w\<rparr>) = caches dev"
  "caches (set_pwm_cache c dev) = (c, ctrl_cache (dev_data dev))"
  "caches (set_ctrl_cache c dev) = (pwm_cache (dev_data dev), c)"
  by (simp_all add: caches_def)

subsection \<open>The initialisation\<close>

lemma init_channels_done: "\<not> i < 28 \<Longrightarrow> init_channels i dev = (OK, dev)"
  by (subst init_channels.simps) (simp add: IS31FL3235A_NUM_CHANNELS_def)

lemma init_channels_unfold:
  "i < 28 \<Longrightarrow> init_channels i dev =
     (if i2c_next (dev_env dev) < 0
        then (Inl (TransportError (i2c_next (dev_env dev))),
              dev\<lparr>dev_env := snd (i2c_write_dt [IS31FL3235A_PWM_REG i, 0] (dev_env dev))\<rparr>)
      else if i2c_next (snd (i2c_write_dt [IS31FL3235A_PWM_REG i, 0] (dev_env dev))) < 0
        then (Inl (TransportError
                (i2c_next (snd (i2c_write_dt [IS31FL3235A_PWM_REG i, 0] (dev_env dev))))),
              dev_env_update (\<lambda>_. dev_env (init_channel_step i dev))
                (set_pwm_cache ((pwm_cache (dev_data dev))[i := 0]) dev))
      else init_channels (Suc i) (init_channel_step i dev))"
  by (subst init_channels.simps)
     (simp add: IS31FL3235A_NUM_CHANNELS_def write_reg_unfold Let_def init_channel_step_def
        set_pwm_cache_def set_ctrl_cache_def del: i2c_next_after)

lemma init_channel_step_simps [simp]:
  "dev_config (init_channel_step i dev) = dev_config dev"
  "dev_data (init_channel_step i dev) =
     (dev_data dev)\<lparr>pwm_cache := (pwm_cache (dev_data dev))[i := 0],
                     ctrl_cache := (ctrl_cache (dev_data dev))[i := IS31FL3235A_CTRL_ENABLE_1X]\<rparr>"
  "trace (dev_env (init_channel_step i dev)) =
     trace (dev_env dev) @
     [I2C_Write [IS31FL3235A_PWM_REG i, 0] (i2c_next (dev_env dev)),
      I2C_Write [IS31FL3235A_CTRL_REG i, IS31FL3235A_CTRL_ENABLE_1X]
        (i2c_next (snd (i2c_write_dt [IS31FL3235A_PWM_REG i, 0] (dev_env dev))))]"
  "gpio_rets (dev_env (init_channel_step i dev)) = gpio_rets (dev_env dev)"
  by (simp_all add: init_channel_step_def del: i2c_next_after)

lemma init_channels_config [simp]:
  "dev_config (snd (init_channels i dev)) = dev_config dev"
proof (induction "28 - i" arbitrary: i dev)
  case 0
  then show ?case by (simp add: init_channels_done)
next
  case (Suc k)
  then have "i < 28" and "k = 28 - Suc i" by simp_all
  with Suc.hyps(1) [of "Suc i" "init_channel_step i dev"] show ?case
    by (simp add: init_channels_unfold set_pwm_cache_def del: i2c_next_after)
qed

lemma reg_unat:
  "i < 28 \<Longrightarrow> unat (IS31FL3235A_PWM_REG i) = 5 + i"
  "i < 28 \<Longrightarrow> unat (IS31FL3235A_CTRL_REG i) = 42 + i"
  by (simp_all add: IS31FL3235A_PWM_REG_def IS31FL3235A_CTRL_REG_def
      IS31FL3235A_REG_PWM_BASE_def IS31FL3235A_REG_CTRL_BASE_def unat_word_ariths unat_of_nat)

lemma reg_not_update:
  "i < 28 \<Longrightarrow> IS31FL3235A_PWM_REG i \<noteq> IS31FL3235A_REG_UPDATE"
  "i < 28 \<Longrightarrow> IS31FL3235A_CTRL_REG i \<noteq> IS31FL3235A_REG_UPDATE"
  "i < 28 \<Longrightarrow> IS31FL3235A_REG_UPDATE \<noteq> IS31FL3235A_PWM_REG i"
  "i < 28 \<Longrightarrow> IS31FL3235A_REG_UPDATE \<noteq> IS31FL3235A_CTRL_REG i"
  using reg_unat [of i] by (auto simp: IS31FL3235A_REG_UPDATE_def)

lemma trigger_writes_simps [simp]:
  "trigger_writes [] = 0"
  "trigger_writes (evs @ evs') = trigger_writes evs + trigger_writes evs'"
  "trigger_writes (ev # evs) = (if is_trigger_write ev then 1 else 0) + trigger_writes evs"
  by (simp_all add: trigger_writes_def)

lemma is_trigger_write_reg [simp]:
  "is_trigger_write (I2C_Write [reg, val] ret) \<longleftrightarrow> reg = IS31FL3235A_REG_UPDATE"
  by auto

lemma nth_list_update_total:
  "xs[i := x] ! j = (if i = j \<and> j < length xs then x else xs ! j)"
  by (cases "i < length xs") (auto simp: nth_list_update list_update_beyond)

lemma init_channels_ok:
  assumes "fst (init_channels i dev) = OK"
  shows "initialized (dev_data (snd (init_channels i dev))) = initialized (dev_data dev) \<and>
         sw_shutdown (dev_data (snd (init_channels i dev))) = sw_shutdown (dev_data dev) \<and>
         hw_shutdown (dev_data (snd (init_channels i dev))) = hw_shutdown (dev_data dev) \<and>
         length (pwm_cache (dev_data (snd (init_channels i dev)))) =
           length (pwm_cache (dev_data dev)) \<and>
         length (ctrl_cache (dev_data (snd (init_channels i dev)))) =
           length (ctrl_cache (dev_data dev)) \<and>
         (\<forall>j. pwm_cache (dev_data (snd (init_channels i dev))) ! j =
            (if i \<le> j \<and> j < 28 \<and> j < length (pwm_cache (dev_data dev)) then 0
             else pwm_cache (dev_data dev) ! j)) \<and>
         (\<forall>j. ctrl_cache (dev_data (snd (init_channels i dev))) ! j =
            (if i \<le> j \<and> j < 28 \<and> j < length (ctrl_cache (dev_data dev))
             then IS31FL3235A_CTRL_ENABLE_1X
             else ctrl_cache (dev_data dev) ! j)) \<and>
         (\<exists>evs. trace (dev_env (snd (init_channels i dev))) = trace (dev_env dev) @ evs \<and>
                trigger_writes evs = 0)"
  using assms
proof (induction "28 - i" arbitrary: i dev)
  case 0
  then show ?case by (auto simp: init_channels_done)
next
  case (Suc k)
  then have i: "i < 28" and k: "k = 28 - Suc i" by simp_all
  from Suc.prems i have run: "init_channels i dev = init_channels (Suc i) (init_channel_step i dev)"
    by (simp add: init_channels_unfold del: i2c_next_after split: if_splits)
  with Suc.prems have ok: "fst (init_channels (Suc i) (init_channel_step i dev)) = OK"
    by simp
  note IH = Suc.hyps(1) [OF k ok]
  from IH obtain evs where
    evs: "trace (dev_env (snd (init_channels (Suc i) (init_channel_step i dev)))) =
            trace (dev_env (init_channel_step i dev)) @ evs" "trigger_writes evs = 0"
    by blast
  have tr: "\<exists>evs. trace (dev_env (snd (init_channels i dev))) = trace (dev_env dev) @ evs \<and>
                trigger_writes evs = 0"
    using evs i by (simp add: run reg_not_update del: i2c_next_after)
  from IH have rest:
    "initialized (dev_data (snd (init_channels i dev))) = initialized (dev_data dev)"
    "sw_shutdown (dev_data (snd (init_channels i dev))) = sw_shutdown (dev_data dev)"
    "hw_shutdown (dev_data (snd (init_channels i dev))) = hw_shutdown (dev_data dev)"
    "length (pwm_cache (dev_data (snd (init_channels i dev)))) =
           length (pwm_cache (dev_data dev))"
    "length (ctrl_cache (dev_data (snd (init_channels i dev)))) =
           length (ctrl_cache (dev_data dev))"
    by (simp_all add: run)
  from IH have pIH: "\<forall>j. pwm_cache (dev_data (snd (init_channels (Suc i) (init_channel_step i dev)))) ! j =
            (if Suc i \<le> j \<and> j < 28 \<and> j < length (pwm_cache (dev_data dev)) then 0
             else (pwm_cache (dev_data dev))[i := 0] ! j)"
    by simp
  have p: "\<forall>j. pwm_cache (dev_data (snd (init_channels i dev))) ! j =
            (if i \<le> j \<and> j < 28 \<and> j < length (pwm_cache (dev_data dev)) then 0
             else pwm_cache (dev_data dev) ! j)"
    using i by (auto simp: run pIH nth_list_update_total)
  from IH have cIH: "\<forall>j. ctrl_cache (dev_data (snd (init_channels (Suc i) (init_channel_step i dev)))) ! j =
            (if Suc i \<le> j \<and> j < 28 \<and> j < length (ctrl_cache (dev_data dev))
             then IS31FL3235A_CTRL_ENABLE_1X
             else (ctrl_cache (dev_data dev))[i := IS31FL3235A_CTRL_ENABLE_1X] ! j)"
    by simp
  have c: "\<forall>j. ctrl_cache (dev_data (snd (init_channels i dev))) ! j =
            (if i \<le> j \<and> j < 28 \<and> j < length (ctrl_cache (dev_data dev))
             then IS31FL3235A_CTRL_ENABLE_1X
             else ctrl_cache (dev_data dev) ! j)"
    using i by (auto simp: run cIH nth_list_update_total)
  from rest p c tr show ?case by blast
qed


lemma init_channels_good:
  "transport_ok (dev_env dev) \<Longrightarrow>
   fst (init_channels i dev) = OK \<and> transport_ok (dev_env (snd (init_channels i dev)))"
proof (induction "28 - i" arbitrary: i dev)
  case 0
  then show ?case by (simp add: init_channels_done)
next
  case (Suc k)
  then have i: "i < 28" and k: "k = 28 - Suc i" by simp_all
  let ?w1 = "snd (i2c_write_dt [IS31FL3235A_PWM_REG i, 0] (dev_env dev))"
  from Suc.prems have a: "\<not> i2c_next (dev_env dev) < 0" by (rule transport_ok_next)
  from Suc.prems have t1: "transport_ok ?w1" by (rule transport_ok_step)
  then have b: "\<not> i2c_next ?w1 < 0" by (rule transport_ok_next)
  from t1 have "transport_ok (dev_env (init_channel_step i dev))"
    by (simp add: init_channel_step_def transport_ok_step)
  from Suc.hyps(1) [OF k this] i a b show ?case
    by (simp add: init_channels_unfold del: i2c_next_after)
qed

lemma init_sdb_ok:
  assumes "fst (init_sdb dev) = OK"
  shows "dev_config (snd (init_sdb dev)) = dev_config dev"
    and "pwm_cache (dev_data (snd (init_sdb dev))) = pwm_cache (dev_data dev)"
    and "ctrl_cache (dev_data (snd (init_sdb dev))) = ctrl_cache (dev_data dev)"
    and "i2c_rets (dev_env (snd (init_sdb dev))) = i2c_rets (dev_env dev)"
    and "\<exists>evs. trace (dev_env (snd (init_sdb dev))) = trace (dev_env dev) @ evs \<and>
           trigger_writes evs = 0"
  using assms
  by (auto simp: init_sdb_def gpio_pin_configure_dt_def gpio_pin_set_dt_def k_msleep_def
      split: if_splits list.splits)

lemma init_sdb_good:
  "sdb_gpio_port (dev_config dev) \<longrightarrow> sdb_port_ready (dev_env dev) \<and> pin_ok (dev_env dev) \<Longrightarrow>
   fst (init_sdb dev) = OK"
  by (auto simp: init_sdb_def gpio_pin_configure_dt_def gpio_pin_set_dt_def pin_ok_def
      split: if_splits list.splits)

lemma init_sdb_config [simp]: "dev_config (snd (init_sdb dev)) = dev_config dev"
  by (auto simp: init_sdb_def gpio_pin_configure_dt_def gpio_pin_set_dt_def k_msleep_def
      split: if_splits list.splits)

lemma case_status:
  "(case r of (Inl e, d) \<Rightarrow> (Inl e, d) | (Inr u, d) \<Rightarrow> f d) =
     (if fst r \<noteq> OK then r else f (snd r))"
  by (cases r; cases "fst r") auto

lemma init_unfold:
  "is31fl3235a_init dev =
    (let r1 = init_sdb dev; d1 = snd r1;
         r2 = is31fl3235a_write_reg IS31FL3235A_REG_RESET IS31FL3235A_RESET_TRIGGER d1;
         d2 = snd r2;
         r3 = is31fl3235a_write_reg IS31FL3235A_REG_SHUTDOWN IS31FL3235A_SHUTDOWN_NORMAL
                (k_msleep IS31FL3235A_RESET_DELAY_MS d2);
         d3 = snd r3;
         d4 = d3\<lparr>dev_data := (dev_data d3)\<lparr>sw_shutdown := False\<rparr>\<rparr>;
         r5 = is31fl3235a_write_reg IS31FL3235A_REG_FREQ
                (if pwm_freq_22khz (dev_config d4) then IS31FL3235A_FREQ_22KHZ
                 else IS31FL3235A_FREQ_3KHZ) d4;
         d5 = snd r5;
         r6 = init_channels 0 d5; d6 = snd r6;
         r7 = is31fl3235a_trigger_update d6; d7 = snd r7
     in if \<not> i2c_bus_ready (dev_env dev) then (Inl ENODEV, dev)
        else if fst r1 \<noteq> OK then r1
        else if fst r2 \<noteq> OK then r2
        else if fst r3 \<noteq> OK then r3
        else if fst r5 \<noteq> OK then r5
        else if fst r6 \<noteq> OK then r6
        else if fst r7 \<noteq> OK then r7
        else (OK, d7\<lparr>dev_data := (dev_data d7)\<lparr>initialized := True\<rparr>\<rparr>))"
  unfolding is31fl3235a_init_def case_status Let_def by (rule refl)


lemma write_reg_proj [simp]:
  "fst (is31fl3235a_write_reg reg val dev) =
     (if i2c_next (dev_env dev) < 0 then Inl (TransportError (i2c_next (dev_env dev))) else OK)"
  "dev_data (snd (is31fl3235a_write_reg reg val dev)) = dev_data dev"
  "dev_config (snd (is31fl3235a_write_reg reg val dev)) = dev_config dev"
  "trace (dev_env (snd (is31fl3235a_write_reg reg val dev))) =
     trace (dev_env dev) @ [I2C_Write [reg, val] (i2c_next (dev_env dev))]"
  "i2c_rets (dev_env (snd (is31fl3235a_write_reg reg val dev))) = tl (i2c_rets (dev_env dev))"
  by (simp_all add: write_reg_unfold)

lemma k_msleep_proj [simp]:
  "dev_data (k_msleep ms dev) = dev_data dev"
  "dev_config (k_msleep ms dev) = dev_config dev"
  "trace (dev_env (k_msleep ms dev)) = trace (dev_env dev) @ [Sleep ms]"
  "i2c_rets (dev_env (k_msleep ms dev)) = i2c_rets (dev_env dev)"
  by (simp_all add: k_msleep_def)

lemma transport_ok_cong: "i2c_rets w = i2c_rets w' \<Longrightarrow> transport_ok w = transport_ok w'"
  by (simp add: transport_ok_def)

lemma transport_ok_tl: "transport_ok w \<Longrightarrow> i2c_rets w' = tl (i2c_rets w) \<Longrightarrow> transport_ok w'"
  by (cases "i2c_rets w") (simp_all add: transport_ok_def)

lemma ctrl_enable_1x [simp]:
  "IS31FL3235A_CTRL_ENABLE_1X = 1"
  "ctrl_enabled 1" "ctrl_scale 1 = 0"
  by (simp_all add: IS31FL3235A_CTRL_ENABLE_1X_def IS31FL3235A_CTRL_OUT_ENABLE_def
      IS31FL3235A_CTRL_SL_1X_def ctrl_enabled_def ctrl_scale_def IS31FL3235A_CTRL_SL_MASK_def
      IS31FL3235A_CTRL_SL_SHIFT_def)

subsection \<open>The fields of a control byte\<close>

lemma u8_bit_index:
  assumes "k < 8"
  obtains "k = 0" | "k = 1" | "k = 2" | "k = 3" | "k = 4" | "k = 5" | "k = 6" | "k = (7::nat)"
  using assms by arith

lemma enable_byte_bits: "bit (enable_byte c en) k \<longleftrightarrow> (if k = 0 then en else bit c k)"
  by (auto simp: enable_byte_def IS31FL3235A_CTRL_OUT_ENABLE_def bit_simps dest: bit_imp_le_length)

lemma scale_cases: 
  assumes "(scale :: u32) \<le> 3" shows "scale = 0 \<or> scale = 1 \<or> scale = 2 \<or> scale = 3"
proof -
  from assms have "unat scale \<le> 3" by (simp add: word_le_nat_alt)
  then have "unat scale = 0 \<or> unat scale = 1 \<or> unat scale = 2 \<or> unat scale = 3" by arith
  then show ?thesis by (auto simp: word_unat_eq_iff)
qed 

lemma scale_byte_values:
  "scale_byte c 0 = c AND NOT 6"
  "scale_byte c 1 = (c AND NOT 6) OR 2"
  "scale_byte c 2 = (c AND NOT 6) OR 4"
  "scale_byte c 3 = (c AND NOT 6) OR 6"
  by (simp_all add: scale_byte_def IS31FL3235A_CTRL_SL_MASK_def IS31FL3235A_CTRL_SL_SHIFT_def)

lemma scale_byte_bits:
  assumes "scale \<le> 3"
  shows "bit (scale_byte c scale) k \<longleftrightarrow>
           (if k = 1 \<or> k = 2 then bit scale (k - 1) else bit c k)"
proof (cases "k < 8")
  case False
  then have "\<not> bit (scale_byte c scale) k" "\<not> bit c k"
    by (auto dest: bit_imp_le_length)
  with False show ?thesis by auto
next
  case True
  then show ?thesis
    using scale_cases [OF assms]
    by (cases rule: u8_bit_index)
       (auto simp: scale_byte_values bit_and_iff bit_or_iff bit_not_iff)
qed

lemma ctrl_scale_bits:
  "bit (ctrl_scale c) k \<longleftrightarrow> (k = 0 \<or> k = 1) \<and> bit c (Suc k)"
proof (cases "k < 8")
  case False
  then have "\<not> bit (ctrl_scale c) k" "\<not> bit c (Suc k)"
    by (auto dest: bit_imp_le_length)
  with False show ?thesis by auto
next
  case True
  then show ?thesis
    by (cases rule: u8_bit_index)
       (auto simp: ctrl_scale_def IS31FL3235A_CTRL_SL_MASK_def IS31FL3235A_CTRL_SL_SHIFT_def
          bit_and_iff bit_drop_bit_eq dest: bit_imp_le_length)
qed

lemma ctrl_enabled_bytes [simp]:
  "ctrl_enabled (enable_byte c en) = en"
  "scale \<le> 3 \<Longrightarrow> ctrl_enabled (scale_byte c scale) = ctrl_enabled c"
  by (simp_all add: ctrl_enabled_def enable_byte_bits scale_byte_bits)

lemma ctrl_scale_bytes [simp]:
  "ctrl_scale (enable_byte c en) = ctrl_scale c"
  "scale \<le> 3 \<Longrightarrow> ctrl_scale (scale_byte c scale) = ucast scale"
proof -
  show "ctrl_scale (enable_byte c en) = ctrl_scale c"
    by (rule bit_word_eqI) (simp add: ctrl_scale_bits enable_byte_bits)
  assume le: "scale \<le> 3"
  show "ctrl_scale (scale_byte c scale) = ucast scale"
  proof (rule bit_word_eqI)
    fix n assume "n < LENGTH(8)"
    then have "n < 8" by simp
    then show "bit (ctrl_scale (scale_byte c scale)) n = bit (ucast scale :: u8) n"
      using scale_cases [OF le]
      by (cases rule: u8_bit_index) (auto simp: ctrl_scale_bits scale_byte_bits [OF le])
  qed
qed

subsection \<open>Shutdown, and the read-only configuration\<close>

lemma sw_shutdown_run:
  "is31fl3235a_sw_shutdown b dev =
     (if i2c_next (dev_env dev) < 0
        then (Inl (TransportError (i2c_next (dev_env dev))),
              dev\<lparr>dev_env := snd (i2c_write_dt [IS31FL3235A_REG_SHUTDOWN,
                  if b then IS31FL3235A_SHUTDOWN_MODE else IS31FL3235A_SHUTDOWN_NORMAL]
                  (dev_env dev))\<rparr>)
      else (OK, dev\<lparr>dev_env := snd (i2c_write_dt [IS31FL3235A_REG_SHUTDOWN,
                  if b then IS31FL3235A_SHUTDOWN_MODE else IS31FL3235A_SHUTDOWN_NORMAL]
                  (dev_env dev)),
                dev_data := (dev_data dev)\<lparr>sw_shutdown := b\<rparr>\<rparr>))"
  by (simp add: is31fl3235a_sw_shutdown_def write_reg_unfold Let_def)

lemma hw_shutdown_config [simp]:
  "dev_config (snd (is31fl3235a_hw_shutdown b dev)) = dev_config dev"
  by (auto simp: is31fl3235a_hw_shutdown_def gpio_pin_set_dt_def k_msleep_def Let_def
      split: list.splits)

lemma init_config [simp]: "dev_config (snd (is31fl3235a_init dev)) = dev_config dev"
  by (simp add: init_unfold Let_def)

lemma run_call_config [simp]: "dev_config (run_call c dev) = dev_config dev"
  by (cases c)
     (simp_all add: led_set_brightness_run led_write_channels_run is31fl3235a_led_on_def
        is31fl3235a_led_off_def set_current_scale_run channel_enable_run channels_enable_run
        sw_shutdown_run is31fl3235a_update_def set_brightness_no_update_run
        write_channels_no_update_run Let_def)

lemma run_calls_config [simp]: "dev_config (run_calls cs dev) = dev_config dev"
  by (induction cs arbitrary: dev) simp_all

subsection \<open>Control-byte operations, projected\<close>

lemma channel_enable_proj:
  "ctrl_cache (dev_data (snd (is31fl3235a_channel_enable ch en dev))) =
     (if unat ch < 28 \<and> \<not> i2c_next (dev_env dev) < 0
      then (ctrl_cache (dev_data dev))[unat ch := enable_byte (ctrl_cache (dev_data dev) ! unat ch) en]
      else ctrl_cache (dev_data dev))"
  "fst (is31fl3235a_channel_enable ch en dev) = OK \<longleftrightarrow>
     unat ch < 28 \<and> \<not> i2c_next (dev_env dev) < 0 \<and>
     \<not> i2c_next ((dev_env dev)\<lparr>i2c_rets := tl (i2c_rets (dev_env dev))\<rparr>) < 0"
  "i2c_rets (dev_env (snd (is31fl3235a_channel_enable ch en dev))) =
     (if 28 \<le> unat ch then i2c_rets (dev_env dev)
      else if i2c_next (dev_env dev) < 0 then tl (i2c_rets (dev_env dev))
      else tl (tl (i2c_rets (dev_env dev))))"
  "length (pwm_cache (dev_data (snd (is31fl3235a_channel_enable ch en dev)))) =
     length (pwm_cache (dev_data dev))"
  by (simp_all add: channel_enable_run)

lemma set_current_scale_proj:
  "ctrl_cache (dev_data (snd (is31fl3235a_set_current_scale ch scale dev))) =
     (if unat ch < 28 \<and> scale \<le> 3 \<and> \<not> i2c_next (dev_env dev) < 0
      then (ctrl_cache (dev_data dev))[unat ch := scale_byte (ctrl_cache (dev_data dev) ! unat ch) scale]
      else ctrl_cache (dev_data dev))"
  "fst (is31fl3235a_set_current_scale ch scale dev) = OK \<longleftrightarrow>
     unat ch < 28 \<and> scale \<le> 3 \<and> \<not> i2c_next (dev_env dev) < 0 \<and>
     \<not> i2c_next ((dev_env dev)\<lparr>i2c_rets := tl (i2c_rets (dev_env dev))\<rparr>) < 0"
  "i2c_rets (dev_env (snd (is31fl3235a_set_current_scale ch scale dev))) =
     (if 28 \<le> unat ch \<or> 3 < scale then i2c_rets (dev_env dev)
      else if i2c_next (dev_env dev) < 0 then tl (i2c_rets (dev_env dev))
      else tl (tl (i2c_rets (dev_env dev))))"
  by (auto simp: set_current_scale_run not_le)

lemma transport_ok_tl2:
  "transport_ok w \<Longrightarrow> i2c_rets w' = tl (tl (i2c_rets w)) \<Longrightarrow> transport_ok w'"
  by (cases "i2c_rets w"; cases "tl (i2c_rets w)") (auto simp: transport_ok_def)

lemma transport_ok_upd [simp]:
  "transport_ok w \<Longrightarrow> \<not> i2c_next (w\<lparr>i2c_rets := tl (i2c_rets w)\<rparr>) < 0"
  by (cases "i2c_rets w"; cases "tl (i2c_rets w)") (auto simp: transport_ok_def i2c_next_def)

subsection \<open>The chip behind the trace\<close>

lemma chip_after_append [simp]: "chip_after (evs @ evs') c = chip_after evs' (chip_after evs c)"
  by (simp add: chip_after_def)

lemma chip_after_single [simp]: "chip_after [ev] c = chip_event ev c"
  by (simp add: chip_after_def)

section \<open>Properties of the driver\<close>

subsection \<open>Argument validation\<close>

text \<open>
  C2.  Whenever \<open>start + count\<close>, computed exactly, exceeds 28, both batch brightness
  writes return the invalid-argument error and hand back the device as it was: no bus
  call is made and no cache entry changes.  Where the 32-bit sum wraps past the driver's
  own range check, the length check of the buffer write refuses the call.
\<close>

theorem write_channels_reject_out_of_range:
  "28 < unat start_channel + unat num_channels \<Longrightarrow>
   is31fl3235a_led_write_channels start_channel num_channels buf dev = (Inl EINVAL, dev) \<and>
   is31fl3235a_write_channels_no_update start_channel num_channels buf dev = (Inl EINVAL, dev)"
  by (simp add: led_write_channels_run write_channels_no_update_run range_ok_exact)

theorem write_channels_reject_out_of_range_witness:
  "28 < unat (20 :: u32) + unat (9 :: u32) \<and>
   is31fl3235a_led_write_channels 20 9 (\<lambda>i. 7) (example_device []) =
     (Inl EINVAL, example_device []) \<and>
   is31fl3235a_write_channels_no_update 20 9 (\<lambda>i. 7) (example_device []) =
     (Inl EINVAL, example_device [])"
  using write_channels_reject_out_of_range [of 20 9 "\<lambda>i. 7" "example_device []"]
  by simp

text \<open>
  C3.  \<^verbatim>\<open>set_brightness(i, v)\<close> returns the invalid-argument error exactly when
  \<open>i \<ge> 28\<close>; the device (caches and bus trace) is then unchanged.  For \<open>i < 28\<close> the
  first thing the call does is the bus write of \<open>v\<close> to the channel's PWM register.
\<close>

theorem set_brightness_range_check:
  "(fst (is31fl3235a_led_set_brightness led val dev) = Inl EINVAL \<longleftrightarrow> 28 \<le> unat led) \<and>
   (28 \<le> unat led \<longrightarrow> is31fl3235a_led_set_brightness led val dev = (Inl EINVAL, dev)) \<and>
   (unat led < 28 \<longrightarrow>
      (\<exists>evs. trace (dev_env (snd (is31fl3235a_led_set_brightness led val dev))) =
         trace (dev_env dev) @
         I2C_Write [IS31FL3235A_PWM_REG (unat led), val] (i2c_next (dev_env dev)) # evs))"
  by (simp add: led_set_brightness_run)

theorem set_brightness_range_check_witness:
  "28 \<le> unat (28 :: u32) \<and>
   is31fl3235a_led_set_brightness 28 200 (example_device []) = (Inl EINVAL, example_device []) \<and>
   28 \<le> unat (4294967295 :: u32) \<and>
   is31fl3235a_led_set_brightness 4294967295 200 (example_device []) =
     (Inl EINVAL, example_device []) \<and>
   unat (5 :: u32) < 28 \<and>
   fst (is31fl3235a_led_set_brightness 5 200 (example_device [])) \<noteq> Inl EINVAL \<and>
   (\<exists>evs. trace (dev_env (snd (is31fl3235a_led_set_brightness 5 200 (example_device [])))) =
      I2C_Write [10, 200] 0 # evs)"
  using set_brightness_range_check [of 28 200 "example_device []"]
    set_brightness_range_check [of 4294967295 200 "example_device []"]
    set_brightness_range_check [of 5 200 "example_device []"]
  by (simp add: IS31FL3235A_PWM_REG_def IS31FL3235A_REG_PWM_BASE_def i2c_next_def)

text \<open>
  C10.  When both range checks pass only because the 32-bit sum
  \<open>start_channel + num_channels\<close> wrapped (the start is below 28 and the wrapped sum is
  at most 28, although \<open>num_channels\<close> exceeds \<open>28 - start_channel\<close>), both batch
  brightness writes still return an error with the device unchanged (no bus call, no
  cache update): the length is then above 255, and the buffer write refuses every
  length above 255 before it reaches the bus.
\<close>

theorem wrapped_range_still_rejected:
  assumes "unat start_channel < 28"
    and "unat (start_channel + num_channels) \<le> 28"
    and "28 - unat start_channel < unat num_channels"
  shows "255 < unat num_channels \<and>
         (255 < len \<longrightarrow> is31fl3235a_write_buffer reg buf len dev = (Inl EINVAL, dev)) \<and>
         is31fl3235a_led_write_channels start_channel num_channels buf dev =
           (Inl EINVAL, dev) \<and>
         is31fl3235a_write_channels_no_update start_channel num_channels buf dev =
           (Inl EINVAL, dev)"
proof -
  from assms(1,3) have exact: "28 < unat start_channel + unat num_channels"
    by simp
  with assms(1,2) have big: "255 < unat num_channels"
    by (rule wrapped_sum_large)
  then have "\<not> range_ok start_channel num_channels"
    by (simp add: range_ok_def)
  with big show ?thesis
    by (simp add: led_write_channels_run write_channels_no_update_run write_buffer_unfold)
qed

theorem wrapped_range_still_rejected_witness:
  "unat (1 :: u32) < 28 \<and> unat ((1 :: u32) + 4294967295) \<le> 28 \<and>
   28 - unat (1 :: u32) < unat (4294967295 :: u32) \<and>
   255 < unat (4294967295 :: u32) \<and>
   (255 < (300 :: nat) \<and>
    is31fl3235a_write_buffer (IS31FL3235A_PWM_REG 1) (\<lambda>i. 7) 300 (example_device []) =
      (Inl EINVAL, example_device [])) \<and>
   is31fl3235a_led_write_channels 1 4294967295 (\<lambda>i. 7) (example_device []) =
     (Inl EINVAL, example_device []) \<and>
   is31fl3235a_write_channels_no_update 1 4294967295 (\<lambda>i. 7) (example_device []) =
     (Inl EINVAL, example_device [])"
proof -
  have h: "unat (1 :: u32) < 28" "unat ((1 :: u32) + 4294967295) \<le> 28"
    "28 - unat (1 :: u32) < unat (4294967295 :: u32)"
    by simp_all
  from wrapped_range_still_rejected [OF h, of 300 "IS31FL3235A_PWM_REG 1" "\<lambda>i. 7"
      "example_device []"] h
  show ?thesis by simp
qed

subsection \<open>Brightness shortcuts\<close>

text \<open>
  C9.  \<^verbatim>\<open>on(led)\<close> is \<^verbatim>\<open>set_brightness(led, 255)\<close> and \<^verbatim>\<open>off(led)\<close> is
  \<^verbatim>\<open>set_brightness(led, 0)\<close>: the same return value and the same resulting device,
  that is the same caches and the same sequence of bus writes.
\<close>

theorem led_on_off_are_set_brightness:
  "is31fl3235a_led_on led dev = is31fl3235a_led_set_brightness led 255 dev \<and>
   is31fl3235a_led_off led dev = is31fl3235a_led_set_brightness led 0 dev"
  by (simp add: is31fl3235a_led_on_def is31fl3235a_led_off_def
      IS31FL3235A_PWM_MAX_def IS31FL3235A_PWM_MIN_def)

subsection \<open>Caches and transport errors\<close>

text \<open>
  C1, as amended.  For each of the seven operations that change channel state, called
  with valid arguments: if its data write (its first bus write) fails, the call returns
  the transport error with that write's code and both caches are exactly as before the
  call; the two no-update variants make no other bus write, so this is every transport
  error they return.  If the data write succeeds and the update-trigger write fails,
  the call returns the transport error with the trigger write's code and the cache
  holds the values just written.  Conversely, a returned transport error is always one
  of these two cases.
\<close>

theorem transport_error_cache:
  "(unat led < 28 \<and> i2c_next (dev_env dev) < 0 \<longrightarrow>
      fst (is31fl3235a_led_set_brightness led val dev) =
        Inl (TransportError (i2c_next (dev_env dev))) \<and>
      caches (snd (is31fl3235a_led_set_brightness led val dev)) = caches dev) \<and>
   (unat led < 28 \<and> 0 \<le> i2c_next (dev_env dev) \<and> i2c_next2 (dev_env dev) < 0 \<longrightarrow>
      fst (is31fl3235a_led_set_brightness led val dev) =
        Inl (TransportError (i2c_next2 (dev_env dev))) \<and>
      caches (snd (is31fl3235a_led_set_brightness led val dev)) =
        ((pwm_cache (dev_data dev))[unat led := val], ctrl_cache (dev_data dev))) \<and>
   (fst (is31fl3235a_led_set_brightness led val dev) = Inl (TransportError e) \<longrightarrow>
      unat led < 28 \<and>
      e = (if i2c_next (dev_env dev) < 0 then i2c_next (dev_env dev)
           else i2c_next2 (dev_env dev)) \<and>
      e < 0 \<and>
      caches (snd (is31fl3235a_led_set_brightness led val dev)) =
        (if i2c_next (dev_env dev) < 0 then caches dev
         else ((pwm_cache (dev_data dev))[unat led := val], ctrl_cache (dev_data dev)))) \<and>
   (unat s < 28 \<and> unat s + unat n \<le> 28 \<and> i2c_next (dev_env dev) < 0 \<longrightarrow>
      fst (is31fl3235a_led_write_channels s n buf dev) =
        Inl (TransportError (i2c_next (dev_env dev))) \<and>
      caches (snd (is31fl3235a_led_write_channels s n buf dev)) = caches dev) \<and>
   (unat s < 28 \<and> unat s + unat n \<le> 28 \<and> 0 \<le> i2c_next (dev_env dev) \<and>
    i2c_next2 (dev_env dev) < 0 \<longrightarrow>
      fst (is31fl3235a_led_write_channels s n buf dev) =
        Inl (TransportError (i2c_next2 (dev_env dev))) \<and>
      caches (snd (is31fl3235a_led_write_channels s n buf dev)) =
        (memcpy_cache (pwm_cache (dev_data dev)) (unat s) buf (unat n),
         ctrl_cache (dev_data dev))) \<and>
   (fst (is31fl3235a_led_write_channels s n buf dev) = Inl (TransportError e) \<longrightarrow>
      unat s < 28 \<and> unat s + unat n \<le> 28 \<and>
      e = (if i2c_next (dev_env dev) < 0 then i2c_next (dev_env dev)
           else i2c_next2 (dev_env dev)) \<and>
      e < 0 \<and>
      caches (snd (is31fl3235a_led_write_channels s n buf dev)) =
        (if i2c_next (dev_env dev) < 0 then caches dev
         else (memcpy_cache (pwm_cache (dev_data dev)) (unat s) buf (unat n),
               ctrl_cache (dev_data dev)))) \<and>
   (unat ch < 28 \<and> scale \<le> 3 \<and> i2c_next (dev_env dev) < 0 \<longrightarrow>
      fst (is31fl3235a_set_current_scale ch scale dev) =
        Inl (TransportError (i2c_next (dev_env dev))) \<and>
      caches (snd (is31fl3235a_set_current_scale ch scale dev)) = caches dev) \<and>
   (unat ch < 28 \<and> scale \<le> 3 \<and> 0 \<le> i2c_next (dev_env dev) \<and>
    i2c_next2 (dev_env dev) < 0 \<longrightarrow>
      fst (is31fl3235a_set_current_scale ch scale dev) =
        Inl (TransportError (i2c_next2 (dev_env dev))) \<and>
      caches (snd (is31fl3235a_set_current_scale ch scale dev)) =
        (pwm_cache (dev_data dev),
         (ctrl_cache (dev_data dev))
           [unat ch := scale_byte (ctrl_cache (dev_data dev) ! unat ch) scale])) \<and>
   (fst (is31fl3235a_set_current_scale ch scale dev) = Inl (TransportError e) \<longrightarrow>
      unat ch < 28 \<and> scale \<le> 3 \<and>
      e = (if i2c_next (dev_env dev) < 0 then i2c_next (dev_env dev)
           else i2c_next2 (dev_env dev)) \<and>
      e < 0 \<and>
      caches (snd (is31fl3235a_set_current_scale ch scale dev)) =
        (if i2c_next (dev_env dev) < 0 then caches dev
         else (pwm_cache (dev_data dev),
               (ctrl_cache (dev_data dev))
                 [unat ch := scale_byte (ctrl_cache (dev_data dev) ! unat ch) scale]))) \<and>
   (unat ch < 28 \<and> i2c_next (dev_env dev) < 0 \<longrightarrow>
      fst (is31fl3235a_channel_enable ch en dev) =
        Inl (TransportError (i2c_next (dev_env dev))) \<and>
      caches (snd (is31fl3235a_channel_enable ch en dev)) = caches dev) \<and>
   (unat ch < 28 \<and> 0 \<le> i2c_next (dev_env dev) \<and> i2c_next2 (dev_env dev) < 0 \<longrightarrow>
      fst (is31fl3235a_channel_enable ch en dev) =
        Inl (TransportError (i2c_next2 (dev_env dev))) \<and>
      caches (snd (is31fl3235a_channel_enable ch en dev)) =
        (pwm_cache (dev_data dev),
         (ctrl_cache (dev_data dev))
           [unat ch := enable_byte (ctrl_cache (dev_data dev) ! unat ch) en])) \<and>
   (fst (is31fl3235a_channel_enable ch en dev) = Inl (TransportError e) \<longrightarrow>
      unat ch < 28 \<and>
      e = (if i2c_next (dev_env dev) < 0 then i2c_next (dev_env dev)
           else i2c_next2 (dev_env dev)) \<and>
      e < 0 \<and>
      caches (snd (is31fl3235a_channel_enable ch en dev)) =
        (if i2c_next (dev_env dev) < 0 then caches dev
         else (pwm_cache (dev_data dev),
               (ctrl_cache (dev_data dev))
                 [unat ch := enable_byte (ctrl_cache (dev_data dev) ! unat ch) en]))) \<and>
   (unat cs < 28 \<and> unat cs + unat cn \<le> 28 \<and> i2c_next (dev_env dev) < 0 \<longrightarrow>
      fst (is31fl3235a_channels_enable cs cn ens dev) =
        Inl (TransportError (i2c_next (dev_env dev))) \<and>
      caches (snd (is31fl3235a_channels_enable cs cn ens dev)) = caches dev) \<and>
   (unat cs < 28 \<and> unat cs + unat cn \<le> 28 \<and> 0 \<le> i2c_next (dev_env dev) \<and>
    i2c_next2 (dev_env dev) < 0 \<longrightarrow>
      fst (is31fl3235a_channels_enable cs cn ens dev) =
        Inl (TransportError (i2c_next2 (dev_env dev))) \<and>
      caches (snd (is31fl3235a_channels_enable cs cn ens dev)) =
        (pwm_cache (dev_data dev),
         memcpy_cache (ctrl_cache (dev_data dev)) (unat cs)
           (ctrl_buf_fill (ctrl_cache (dev_data dev)) (unat cs) (unat cn) ens 0 (\<lambda>_. 0))
           (unat cn))) \<and>
   (fst (is31fl3235a_channels_enable cs cn ens dev) = Inl (TransportError e) \<longrightarrow>
      unat cs < 28 \<and> unat cs + unat cn \<le> 28 \<and>
      e = (if i2c_next (dev_env dev) < 0 then i2c_next (dev_env dev)
           else i2c_next2 (dev_env dev)) \<and>
      e < 0 \<and>
      caches (snd (is31fl3235a_channels_enable cs cn ens dev)) =
        (if i2c_next (dev_env dev) < 0 then caches dev
         else (pwm_cache (dev_data dev),
               memcpy_cache (ctrl_cache (dev_data dev)) (unat cs)
                 (ctrl_buf_fill (ctrl_cache (dev_data dev)) (unat cs) (unat cn) ens 0 (\<lambda>_. 0))
                 (unat cn)))) \<and>
   (unat led < 28 \<and> i2c_next (dev_env dev) < 0 \<longrightarrow>
      fst (is31fl3235a_set_brightness_no_update led val dev) =
        Inl (TransportError (i2c_next (dev_env dev))) \<and>
      caches (snd (is31fl3235a_set_brightness_no_update led val dev)) = caches dev) \<and>
   (fst (is31fl3235a_set_brightness_no_update led val dev) = Inl (TransportError e) \<longrightarrow>
      unat led < 28 \<and> i2c_next (dev_env dev) < 0 \<and> e = i2c_next (dev_env dev) \<and>
      caches (snd (is31fl3235a_set_brightness_no_update led val dev)) = caches dev) \<and>
   (unat s < 28 \<and> unat s + unat n \<le> 28 \<and> i2c_next (dev_env dev) < 0 \<longrightarrow>
      fst (is31fl3235a_write_channels_no_update s n buf dev) =
        Inl (TransportError (i2c_next (dev_env dev))) \<and>
      caches (snd (is31fl3235a_write_channels_no_update s n buf dev)) = caches dev) \<and>
   (fst (is31fl3235a_write_channels_no_update s n buf dev) = Inl (TransportError e) \<longrightarrow>
      unat s < 28 \<and> unat s + unat n \<le> 28 \<and> i2c_next (dev_env dev) < 0 \<and>
      e = i2c_next (dev_env dev) \<and>
      caches (snd (is31fl3235a_write_channels_no_update s n buf dev)) = caches dev)"
proof -
  note runs = led_set_brightness_run led_write_channels_run set_current_scale_run
    channel_enable_run channels_enable_run set_brightness_no_update_run
    write_channels_no_update_run
  have le3: "scale \<le> 3 \<longleftrightarrow> \<not> 3 < scale" by (simp add: not_less)
  show ?thesis
    by (intro conjI impI)
       (simp_all add: runs range_ok_exact i2c_next_tl Let_def le3 split: if_splits)
qed

theorem transport_error_cache_witness:
  "i2c_next (dev_env (example_device [- 5])) < 0 \<and>
   unat (0 :: u32) < 28 \<and> unat (3 :: u32) < 28 \<and> unat (3 :: u32) + unat (2 :: u32) \<le> 28 \<and>
   unat (3 :: u8) < 28 \<and> (1 :: u32) \<le> 3 \<and>
   unat (2 :: u8) < 28 \<and> unat (2 :: u8) + unat (3 :: u8) \<le> 28 \<and>
   fst (is31fl3235a_led_set_brightness 0 5 (example_device [- 5])) = Inl (TransportError (- 5)) \<and>
   caches (snd (is31fl3235a_led_set_brightness 0 5 (example_device [- 5]))) =
     caches (example_device [- 5]) \<and>
   fst (is31fl3235a_led_write_channels 3 2 (\<lambda>i. 7) (example_device [- 5])) =
     Inl (TransportError (- 5)) \<and>
   caches (snd (is31fl3235a_led_write_channels 3 2 (\<lambda>i. 7) (example_device [- 5]))) =
     caches (example_device [- 5]) \<and>
   fst (is31fl3235a_set_current_scale 3 1 (example_device [- 5])) = Inl (TransportError (- 5)) \<and>
   caches (snd (is31fl3235a_set_current_scale 3 1 (example_device [- 5]))) =
     caches (example_device [- 5]) \<and>
   fst (is31fl3235a_channel_enable 3 True (example_device [- 5])) = Inl (TransportError (- 5)) \<and>
   caches (snd (is31fl3235a_channel_enable 3 True (example_device [- 5]))) =
     caches (example_device [- 5]) \<and>
   fst (is31fl3235a_channels_enable 2 3 (\<lambda>i. True) (example_device [- 5])) =
     Inl (TransportError (- 5)) \<and>
   caches (snd (is31fl3235a_channels_enable 2 3 (\<lambda>i. True) (example_device [- 5]))) =
     caches (example_device [- 5]) \<and>
   fst (is31fl3235a_set_brightness_no_update 0 5 (example_device [- 5])) =
     Inl (TransportError (- 5)) \<and>
   caches (snd (is31fl3235a_set_brightness_no_update 0 5 (example_device [- 5]))) =
     caches (example_device [- 5]) \<and>
   fst (is31fl3235a_write_channels_no_update 3 2 (\<lambda>i. 7) (example_device [- 5])) =
     Inl (TransportError (- 5)) \<and>
   caches (snd (is31fl3235a_write_channels_no_update 3 2 (\<lambda>i. 7) (example_device [- 5]))) =
     caches (example_device [- 5]) \<and>
   0 \<le> i2c_next (dev_env (example_device [0, - 5])) \<and>
   i2c_next2 (dev_env (example_device [0, - 5])) < 0 \<and>
   fst (is31fl3235a_led_set_brightness 0 5 (example_device [0, - 5])) =
     Inl (TransportError (- 5)) \<and>
   caches (snd (is31fl3235a_led_set_brightness 0 5 (example_device [0, - 5]))) =
     ((pwm_cache power_on_data)[0 := 5], ctrl_cache power_on_data) \<and>
   fst (is31fl3235a_led_write_channels 3 2 (\<lambda>i. 7) (example_device [0, - 5])) =
     Inl (TransportError (- 5)) \<and>
   caches (snd (is31fl3235a_led_write_channels 3 2 (\<lambda>i. 7) (example_device [0, - 5]))) =
     (memcpy_cache (pwm_cache power_on_data) 3 (\<lambda>i. 7) 2, ctrl_cache power_on_data) \<and>
   fst (is31fl3235a_set_current_scale 3 1 (example_device [0, - 5])) =
     Inl (TransportError (- 5)) \<and>
   caches (snd (is31fl3235a_set_current_scale 3 1 (example_device [0, - 5]))) =
     (pwm_cache power_on_data,
      (ctrl_cache power_on_data)[3 := scale_byte (ctrl_cache power_on_data ! 3) 1]) \<and>
   fst (is31fl3235a_channel_enable 3 True (example_device [0, - 5])) =
     Inl (TransportError (- 5)) \<and>
   caches (snd (is31fl3235a_channel_enable 3 True (example_device [0, - 5]))) =
     (pwm_cache power_on_data,
      (ctrl_cache power_on_data)[3 := enable_byte (ctrl_cache power_on_data ! 3) True]) \<and>
   fst (is31fl3235a_channels_enable 2 3 (\<lambda>i. True) (example_device [0, - 5])) =
     Inl (TransportError (- 5)) \<and>
   caches (snd (is31fl3235a_channels_enable 2 3 (\<lambda>i. True) (example_device [0, - 5]))) =
     (pwm_cache power_on_data,
      memcpy_cache (ctrl_cache power_on_data) 2
        (ctrl_buf_fill (ctrl_cache power_on_data) 2 3 (\<lambda>i. True) 0 (\<lambda>_. 0)) 3)"
  using transport_error_cache [where led = 0 and val = 5 and dev = "example_device [- 5]"
      and e = "- 5" and s = 3 and n = 2 and buf = "\<lambda>i. 7" and ch = 3 and scale = 1
      and en = True and cs = 2 and cn = 3 and ens = "\<lambda>i. True"]
    transport_error_cache [where led = 0 and val = 5 and dev = "example_device [0, - 5]"
      and e = "- 5" and s = 3 and n = 2 and buf = "\<lambda>i. 7" and ch = 3 and scale = 1
      and en = True and cs = 2 and cn = 3 and ens = "\<lambda>i. True"]
  by (simp add: caches_def)

text \<open>
  As stated, C1 fails: with a bus that accepts the data write and fails the trigger
  write, \<^verbatim>\<open>set_brightness(0, 5)\<close> returns the transport error and the PWM cache
  has changed.
\<close>

theorem transport_error_cache_counterexample:
  "fst (is31fl3235a_led_set_brightness 0 5 (example_device [0, - 5])) = Inl (TransportError (- 5)) \<and>
   pwm_cache (dev_data (snd (is31fl3235a_led_set_brightness 0 5 (example_device [0, - 5])))) \<noteq>
   pwm_cache (dev_data (example_device [0, - 5]))"
proof -
  let ?run = "is31fl3235a_led_set_brightness 0 5 (example_device [0, - 5])"
  have r: "fst ?run = Inl (TransportError (- 5))"
    by (simp add: led_set_brightness_run)
  have new: "pwm_cache (dev_data (snd ?run)) ! 0 = 5"
    by (simp add: led_set_brightness_run power_on_data_def)
  have old: "pwm_cache (dev_data (example_device [0, - 5])) ! 0 = 0"
    by (simp add: power_on_data_def)
  from new old have "pwm_cache (dev_data (snd ?run)) \<noteq> pwm_cache (dev_data (example_device [0, - 5]))"
    by auto
  with r show ?thesis by simp
qed

subsection \<open>Cache fidelity\<close>

text \<open>
  C8.  After a successful \<^verbatim>\<open>set_brightness(c, v)\<close> the PWM cache holds \<open>v\<close> at
  \<open>c\<close>, every other PWM entry is as before and the control cache is unchanged.  After
  a successful \<^verbatim>\<open>write_channels(start, count, values)\<close> the PWM cache holds
  \<open>values[i]\<close> at \<open>start + i\<close> for every \<open>i < count\<close>, every entry outside
  \<open>[start, start + count)\<close> is as before, and the control cache is unchanged.
\<close>

theorem cache_fidelity:
  assumes "wf_data (dev_data dev)"
  shows "(fst (is31fl3235a_led_set_brightness led val dev) = OK \<longrightarrow>
            pwm_cache (dev_data (snd (is31fl3235a_led_set_brightness led val dev))) ! unat led = val \<and>
            (\<forall>j. j \<noteq> unat led \<longrightarrow>
               pwm_cache (dev_data (snd (is31fl3235a_led_set_brightness led val dev))) ! j =
               pwm_cache (dev_data dev) ! j) \<and>
            ctrl_cache (dev_data (snd (is31fl3235a_led_set_brightness led val dev))) =
              ctrl_cache (dev_data dev)) \<and>
         (fst (is31fl3235a_led_write_channels s n buf dev) = OK \<longrightarrow>
            (\<forall>i < unat n.
               pwm_cache (dev_data (snd (is31fl3235a_led_write_channels s n buf dev))) ! (unat s + i) =
               buf i) \<and>
            (\<forall>j. \<not> (unat s \<le> j \<and> j < unat s + unat n) \<longrightarrow>
               pwm_cache (dev_data (snd (is31fl3235a_led_write_channels s n buf dev))) ! j =
               pwm_cache (dev_data dev) ! j) \<and>
            ctrl_cache (dev_data (snd (is31fl3235a_led_write_channels s n buf dev))) =
              ctrl_cache (dev_data dev))"
proof (intro conjI impI)
  assume ok: "fst (is31fl3235a_led_set_brightness led val dev) = OK"
  then have led: "unat led < 28" and w: "\<not> i2c_next (dev_env dev) < 0"
    by (auto simp: led_set_brightness_run split: if_splits)
  then have d: "dev_data (snd (is31fl3235a_led_set_brightness led val dev)) =
      (dev_data dev)\<lparr>pwm_cache := (pwm_cache (dev_data dev))[unat led := val]\<rparr>"
    by (simp add: led_set_brightness_run)
  from assms led show "pwm_cache (dev_data (snd (is31fl3235a_led_set_brightness led val dev))) ! unat led = val"
    by (simp add: d wf_data_def IS31FL3235A_NUM_CHANNELS_def)
  show "\<forall>j. j \<noteq> unat led \<longrightarrow>
      pwm_cache (dev_data (snd (is31fl3235a_led_set_brightness led val dev))) ! j =
      pwm_cache (dev_data dev) ! j"
    by (simp add: d)
  show "ctrl_cache (dev_data (snd (is31fl3235a_led_set_brightness led val dev))) =
      ctrl_cache (dev_data dev)"
    by (simp add: d)
next
  assume ok: "fst (is31fl3235a_led_write_channels s n buf dev) = OK"
  then have r: "range_ok s n" and w: "\<not> i2c_next (dev_env dev) < 0"
    by (auto simp: led_write_channels_run split: if_splits)
  then have d: "dev_data (snd (is31fl3235a_led_write_channels s n buf dev)) =
      (dev_data dev)\<lparr>pwm_cache := memcpy_cache (pwm_cache (dev_data dev)) (unat s) buf (unat n)\<rparr>"
    by (simp add: led_write_channels_run)
  from r assms have fit: "unat s + unat n \<le> length (pwm_cache (dev_data dev))"
    by (simp add: range_ok_exact wf_data_def IS31FL3235A_NUM_CHANNELS_def)
  show "\<forall>i < unat n.
      pwm_cache (dev_data (snd (is31fl3235a_led_write_channels s n buf dev))) ! (unat s + i) = buf i"
    by (simp add: d nth_memcpy_cache [OF fit])
  show "\<forall>j. \<not> (unat s \<le> j \<and> j < unat s + unat n) \<longrightarrow>
      pwm_cache (dev_data (snd (is31fl3235a_led_write_channels s n buf dev))) ! j =
      pwm_cache (dev_data dev) ! j"
    by (simp add: d nth_memcpy_cache [OF fit])
  show "ctrl_cache (dev_data (snd (is31fl3235a_led_write_channels s n buf dev))) =
      ctrl_cache (dev_data dev)"
    by (simp add: d)
qed

theorem cache_fidelity_witness:
  "wf_data (dev_data (example_device [])) \<and>
   fst (is31fl3235a_led_set_brightness 5 200 (example_device [])) = OK \<and>
   pwm_cache (dev_data (snd (is31fl3235a_led_set_brightness 5 200 (example_device [])))) ! 5 = 200 \<and>
   pwm_cache (dev_data (snd (is31fl3235a_led_set_brightness 5 200 (example_device [])))) ! 6 = 0 \<and>
   fst (is31fl3235a_led_write_channels 3 2 (\<lambda>i. of_nat i + 10) (example_device [])) = OK \<and>
   pwm_cache (dev_data (snd (is31fl3235a_led_write_channels 3 2 (\<lambda>i. of_nat i + 10)
     (example_device [])))) ! 4 = 11 \<and>
   pwm_cache (dev_data (snd (is31fl3235a_led_write_channels 3 2 (\<lambda>i. of_nat i + 10)
     (example_device [])))) ! 5 = 0"
proof -
  have wf: "wf_data (dev_data (example_device []))" by simp
  have a: "fst (is31fl3235a_led_set_brightness 5 200 (example_device [])) = OK"
    by (simp add: led_set_brightness_run)
  have b: "fst (is31fl3235a_led_write_channels 3 2 (\<lambda>i. of_nat i + 10) (example_device [])) = OK"
    by (simp add: led_write_channels_run range_ok_def)
  have z: "pwm_cache (dev_data (example_device [])) ! 6 = 0"
    "pwm_cache (dev_data (example_device [])) ! 5 = 0"
    by (simp_all add: power_on_data_def)
  from cache_fidelity [OF wf, of 5 200 3 2 "\<lambda>i. of_nat i + 10"] a b z wf
  show ?thesis
    apply simp
    apply (elim conjE)
    apply (drule spec [of _ 6], drule spec [of _ 1], drule spec [of _ 5])
    apply simp
    done
qed

subsection \<open>Initialisation\<close>

text \<open>
  C5.  When the initialisation returns success, every one of the 28 channels has PWM
  cache 0 and control cache "enabled, full current scale", \<open>sw_shutdown\<close> is false,
  \<open>initialized\<close> is true, and among all the calls the sequence made exactly one is a
  write to the update register.  With a ready bus, a succeeding transport and (where a
  pin is configured) a ready and succeeding pin, the initialisation does return success.
\<close>

theorem init_baseline:
  assumes wf: "wf_data (dev_data dev)"
  shows "(fst (is31fl3235a_init dev) = OK \<longrightarrow>
           (\<forall>i<28. pwm_cache (dev_data (snd (is31fl3235a_init dev))) ! i = 0 \<and>
                   ctrl_cache (dev_data (snd (is31fl3235a_init dev))) ! i =
                     IS31FL3235A_CTRL_ENABLE_1X \<and>
                   ctrl_enabled (ctrl_cache (dev_data (snd (is31fl3235a_init dev))) ! i) \<and>
                   ctrl_scale (ctrl_cache (dev_data (snd (is31fl3235a_init dev))) ! i) = 0) \<and>
           \<not> sw_shutdown (dev_data (snd (is31fl3235a_init dev))) \<and>
           initialized (dev_data (snd (is31fl3235a_init dev))) \<and>
           trigger_writes (new_events dev (snd (is31fl3235a_init dev))) = 1) \<and>
         (i2c_bus_ready (dev_env dev) \<and> transport_ok (dev_env dev) \<and>
          (sdb_gpio_port (dev_config dev) \<longrightarrow>
             sdb_port_ready (dev_env dev) \<and> pin_ok (dev_env dev)) \<longrightarrow>
          fst (is31fl3235a_init dev) = OK)"
proof (intro conjI impI)
  define d1 where "d1 = snd (init_sdb dev)"
  define d2 where
    "d2 = snd (is31fl3235a_write_reg IS31FL3235A_REG_RESET IS31FL3235A_RESET_TRIGGER d1)"
  define d3 where
    "d3 = snd (is31fl3235a_write_reg IS31FL3235A_REG_SHUTDOWN IS31FL3235A_SHUTDOWN_NORMAL
                (k_msleep IS31FL3235A_RESET_DELAY_MS d2))"
  define d4 where "d4 = d3\<lparr>dev_data := (dev_data d3)\<lparr>sw_shutdown := False\<rparr>\<rparr>"
  define d5 where
    "d5 = snd (is31fl3235a_write_reg IS31FL3235A_REG_FREQ
                (if pwm_freq_22khz (dev_config d4) then IS31FL3235A_FREQ_22KHZ
                 else IS31FL3235A_FREQ_3KHZ) d4)"
  define d6 where "d6 = snd (init_channels 0 d5)"
  define d7 where "d7 = snd (is31fl3235a_trigger_update d6)"
  note ds = d1_def d2_def d3_def d4_def d5_def d6_def d7_def
  have unf: "is31fl3235a_init dev =
      (if \<not> i2c_bus_ready (dev_env dev) then (Inl ENODEV, dev)
       else if fst (init_sdb dev) \<noteq> OK then init_sdb dev
       else if i2c_next (dev_env d1) < 0 then
         is31fl3235a_write_reg IS31FL3235A_REG_RESET IS31FL3235A_RESET_TRIGGER d1
       else if i2c_next (dev_env (k_msleep IS31FL3235A_RESET_DELAY_MS d2)) < 0 then
         is31fl3235a_write_reg IS31FL3235A_REG_SHUTDOWN IS31FL3235A_SHUTDOWN_NORMAL
                (k_msleep IS31FL3235A_RESET_DELAY_MS d2)
       else if i2c_next (dev_env d4) < 0 then
         is31fl3235a_write_reg IS31FL3235A_REG_FREQ
                (if pwm_freq_22khz (dev_config d4) then IS31FL3235A_FREQ_22KHZ
                 else IS31FL3235A_FREQ_3KHZ) d4
       else if fst (init_channels 0 d5) \<noteq> OK then init_channels 0 d5
       else if i2c_next (dev_env d6) < 0 then is31fl3235a_trigger_update d6
       else (OK, d7\<lparr>dev_data := (dev_data d7)\<lparr>initialized := True\<rparr>\<rparr>))"
    unfolding init_unfold Let_def ds by simp
  {
    assume ok: "fst (is31fl3235a_init dev) = OK"
    have s1: "fst (init_sdb dev) = OK" and s6: "fst (init_channels 0 d5) = OK"
      and fin: "snd (is31fl3235a_init dev) = d7\<lparr>dev_data := (dev_data d7)\<lparr>initialized := True\<rparr>\<rparr>"
      using ok unfolding unf by (simp_all split: if_splits)
    note sdb = init_sdb_ok [OF s1, folded d1_def]
    note chan = init_channels_ok [OF s6, folded d6_def]
    have data5: "pwm_cache (dev_data d5) = pwm_cache (dev_data dev)"
      "ctrl_cache (dev_data d5) = ctrl_cache (dev_data dev)"
      "\<not> sw_shutdown (dev_data d5)"
      by (simp_all add: d5_def d4_def d3_def d2_def sdb)
    from chan data5 wf have caches:
      "\<forall>i<28. pwm_cache (dev_data d6) ! i = 0 \<and> ctrl_cache (dev_data d6) ! i = 1"
      by (simp add: wf_data_def IS31FL3235A_NUM_CHANNELS_def)
    from chan data5 have sw: "\<not> sw_shutdown (dev_data d6)" by simp
    from sdb obtain evs1 where evs1: "trace (dev_env d1) = trace (dev_env dev) @ evs1"
      "trigger_writes evs1 = 0" by blast
    from chan obtain evs6 where evs6: "trace (dev_env d6) = trace (dev_env d5) @ evs6"
      "trigger_writes evs6 = 0" by blast
    have "\<exists>a b c d. trace (dev_env d7) = trace (dev_env dev) @ evs1 @
        [I2C_Write [IS31FL3235A_REG_RESET, IS31FL3235A_RESET_TRIGGER] a, Sleep IS31FL3235A_RESET_DELAY_MS,
         I2C_Write [IS31FL3235A_REG_SHUTDOWN, IS31FL3235A_SHUTDOWN_NORMAL] b,
         I2C_Write [IS31FL3235A_REG_FREQ, (if pwm_freq_22khz (dev_config dev) then IS31FL3235A_FREQ_22KHZ
                 else IS31FL3235A_FREQ_3KHZ)] c] @ evs6 @
        [I2C_Write [IS31FL3235A_REG_UPDATE, IS31FL3235A_UPDATE_TRIGGER] d]"
      by (simp add: d7_def evs6 d5_def d4_def d3_def d2_def evs1 sdb(1))
    then have trig: "trigger_writes (new_events dev d7) = 1"
      by (auto simp: new_events_def evs1 evs6 IS31FL3235A_REG_RESET_def
          IS31FL3235A_REG_SHUTDOWN_def IS31FL3235A_REG_FREQ_def IS31FL3235A_REG_UPDATE_def)
    show "\<forall>i<28. pwm_cache (dev_data (snd (is31fl3235a_init dev))) ! i = 0 \<and>
                   ctrl_cache (dev_data (snd (is31fl3235a_init dev))) ! i =
                     IS31FL3235A_CTRL_ENABLE_1X \<and>
                   ctrl_enabled (ctrl_cache (dev_data (snd (is31fl3235a_init dev))) ! i) \<and>
                   ctrl_scale (ctrl_cache (dev_data (snd (is31fl3235a_init dev))) ! i) = 0"
      using caches by (simp add: fin d7_def)
    show "\<not> sw_shutdown (dev_data (snd (is31fl3235a_init dev)))"
      using sw by (simp add: fin d7_def)
    show "initialized (dev_data (snd (is31fl3235a_init dev)))"
      by (simp add: fin)
    show "trigger_writes (new_events dev (snd (is31fl3235a_init dev))) = 1"
      using trig by (simp add: fin new_events_def)
  }
  assume good: "i2c_bus_ready (dev_env dev) \<and> transport_ok (dev_env dev) \<and>
          (sdb_gpio_port (dev_config dev) \<longrightarrow>
             sdb_port_ready (dev_env dev) \<and> pin_ok (dev_env dev))"
  then have s1: "fst (init_sdb dev) = OK" by (simp add: init_sdb_good)
  note sdb = init_sdb_ok [OF s1, folded d1_def]
  from good sdb(4) have t1: "transport_ok (dev_env d1)"
    by (simp add: transport_ok_cong [of "dev_env d1" "dev_env dev"])
  have t2: "transport_ok (dev_env (k_msleep IS31FL3235A_RESET_DELAY_MS d2))"
    by (rule transport_ok_tl [OF t1]) (simp add: d2_def)
  have t4: "transport_ok (dev_env d4)"
    by (rule transport_ok_tl [OF t2]) (simp add: d4_def d3_def)
  have t5: "transport_ok (dev_env d5)"
    by (rule transport_ok_tl [OF t4]) (simp add: d5_def)
  from init_channels_good [OF t5, of 0] have s6: "fst (init_channels 0 d5) = OK"
    and t6: "transport_ok (dev_env d6)" by (simp_all add: d6_def)
  from good s1 t1 t2 t4 s6 t6 show "fst (is31fl3235a_init dev) = OK"
    unfolding unf by (simp add: transport_ok_next)
qed

theorem init_baseline_witness:
  "wf_data (dev_data (example_device [])) \<and>
   i2c_bus_ready (dev_env (example_device [])) \<and>
   transport_ok (dev_env (example_device [])) \<and>
   \<not> sdb_gpio_port (dev_config (example_device [])) \<and>
   fst (is31fl3235a_init (example_device [])) = OK \<and>
   pwm_cache (dev_data (snd (is31fl3235a_init (example_device [])))) ! 27 = 0 \<and>
   ctrl_cache (dev_data (snd (is31fl3235a_init (example_device [])))) ! 27 = 1 \<and>
   ctrl_enabled (ctrl_cache (dev_data (snd (is31fl3235a_init (example_device [])))) ! 27) \<and>
   ctrl_scale (ctrl_cache (dev_data (snd (is31fl3235a_init (example_device [])))) ! 27) = 0 \<and>
   \<not> sw_shutdown (dev_data (snd (is31fl3235a_init (example_device [])))) \<and>
   initialized (dev_data (snd (is31fl3235a_init (example_device [])))) \<and>
   trigger_writes (new_events (example_device []) (snd (is31fl3235a_init (example_device [])))) = 1 \<and>
   sdb_gpio_port (dev_config ((example_device [])
     \<lparr>dev_config := \<lparr>sdb_gpio_port = True, pwm_freq_22khz = True\<rparr>\<rparr>)) \<and>
   pin_ok (dev_env (example_device [])) \<and>
   fst (is31fl3235a_init ((example_device [])
     \<lparr>dev_config := \<lparr>sdb_gpio_port = True, pwm_freq_22khz = True\<rparr>\<rparr>)) = OK \<and>
   trigger_writes (new_events (example_device [])
     (snd (is31fl3235a_init ((example_device [])
       \<lparr>dev_config := \<lparr>sdb_gpio_port = True, pwm_freq_22khz = True\<rparr>\<rparr>)))) = 1"
proof -
  let ?pin = "(example_device [])\<lparr>dev_config := \<lparr>sdb_gpio_port = True, pwm_freq_22khz = True\<rparr>\<rparr>"
  have wf: "wf_data (dev_data (example_device []))" "wf_data (dev_data ?pin)" by simp_all
  have good: "i2c_bus_ready (dev_env (example_device []))"
    "transport_ok (dev_env (example_device []))"
    "\<not> sdb_gpio_port (dev_config (example_device []))"
    "pin_ok (dev_env (example_device []))"
    "dev_env ?pin = dev_env (example_device [])"
    "sdb_port_ready (dev_env (example_device []))"
    by (simp_all add: transport_ok_def pin_ok_def)
  from init_baseline [OF wf(1)] init_baseline [OF wf(2)] good wf show ?thesis
    by (simp add: new_events_def)
qed

subsection \<open>Shutdown\<close>

text \<open>
  C7.  On an instance without a shutdown pin, \<^verbatim>\<open>hw_shutdown(b)\<close> returns the
  unsupported error and the device is exactly as before: \<open>sw_shutdown\<close>,
  \<open>hw_shutdown\<close>, both caches and the bus trace.  The condition is permanent: no
  operation changes the configuration, so the same holds after any sequence of calls.
  And \<^verbatim>\<open>sw_shutdown(b)\<close> never changes \<open>hw_shutdown\<close>, whether its bus write
  succeeds or fails.
\<close>

theorem hw_shutdown_unsupported:
  "(\<not> sdb_gpio_port (dev_config dev) \<longrightarrow>
      is31fl3235a_hw_shutdown b dev = (Inl ENOTSUP, dev) \<and>
      is31fl3235a_hw_shutdown b (run_calls calls dev) = (Inl ENOTSUP, run_calls calls dev)) \<and>
   hw_shutdown (dev_data (snd (is31fl3235a_sw_shutdown b' dev))) = hw_shutdown (dev_data dev)"
  by (simp add: is31fl3235a_hw_shutdown_def sw_shutdown_run)

theorem hw_shutdown_unsupported_witness:
  "\<not> sdb_gpio_port (dev_config (example_device [])) \<and>
   is31fl3235a_hw_shutdown True (example_device []) = (Inl ENOTSUP, example_device []) \<and>
   is31fl3235a_hw_shutdown False
     (run_calls [Init, Sw_shutdown True, Hw_shutdown True] (example_device [])) =
     (Inl ENOTSUP, run_calls [Init, Sw_shutdown True, Hw_shutdown True] (example_device []))"
  using hw_shutdown_unsupported [of "example_device []" True "[]"]
    hw_shutdown_unsupported [of "example_device []" False
      "[Init, Sw_shutdown True, Hw_shutdown True]"]
  by simp

subsection \<open>Scale and enable are independent\<close>

text \<open>
  C4.  \<^verbatim>\<open>channel_enable\<close> changes nothing in the control cache but bit 0 of the
  channel's byte, and on success that bit is the requested state and the scale field is
  as before; \<^verbatim>\<open>set_current_scale\<close> changes nothing but bits 1 and 2 of the channel's
  byte, and on success the scale field is the requested scale and the enable bit is as
  before.  Hence, for a channel \<open>c < 28\<close> and a scale \<open>s \<le> 3\<close>, running
  \<^verbatim>\<open>channel_enable(c, false); set_current_scale(c, s); channel_enable(c, true)\<close> on a
  succeeding transport succeeds three times and leaves the control byte of \<open>c\<close> with
  enable = 1 and scale = \<open>s\<close>.
\<close>

theorem scale_enable_independence:
  assumes wf: "wf_data (dev_data dev)"
  shows "(\<forall>j k. j \<noteq> unat ch \<or> k \<noteq> 0 \<longrightarrow>
            bit (ctrl_cache (dev_data (snd (is31fl3235a_channel_enable ch en dev))) ! j) k =
            bit (ctrl_cache (dev_data dev) ! j) k) \<and>
         (fst (is31fl3235a_channel_enable ch en dev) = OK \<longrightarrow>
            ctrl_enabled (ctrl_cache (dev_data (snd (is31fl3235a_channel_enable ch en dev)))
              ! unat ch) = en \<and>
            ctrl_scale (ctrl_cache (dev_data (snd (is31fl3235a_channel_enable ch en dev)))
              ! unat ch) = ctrl_scale (ctrl_cache (dev_data dev) ! unat ch)) \<and>
         (\<forall>j k. j \<noteq> unat ch \<or> (k \<noteq> 1 \<and> k \<noteq> 2) \<longrightarrow>
            bit (ctrl_cache (dev_data (snd (is31fl3235a_set_current_scale ch scale dev))) ! j) k =
            bit (ctrl_cache (dev_data dev) ! j) k) \<and>
         (fst (is31fl3235a_set_current_scale ch scale dev) = OK \<longrightarrow>
            ctrl_scale (ctrl_cache (dev_data (snd (is31fl3235a_set_current_scale ch scale dev)))
              ! unat ch) = ucast scale \<and>
            ctrl_enabled (ctrl_cache (dev_data (snd (is31fl3235a_set_current_scale ch scale dev)))
              ! unat ch) = ctrl_enabled (ctrl_cache (dev_data dev) ! unat ch)) \<and>
         (unat ch < 28 \<and> scale \<le> 3 \<and> transport_ok (dev_env dev) \<longrightarrow>
            (let r1 = is31fl3235a_channel_enable ch False dev;
                 r2 = is31fl3235a_set_current_scale ch scale (snd r1);
                 r3 = is31fl3235a_channel_enable ch True (snd r2)
             in fst r1 = OK \<and> fst r2 = OK \<and> fst r3 = OK \<and>
                ctrl_enabled (ctrl_cache (dev_data (snd r3)) ! unat ch) \<and>
                ctrl_scale (ctrl_cache (dev_data (snd r3)) ! unat ch) = ucast scale))"
proof (intro conjI)
  from wf have len: "length (ctrl_cache (dev_data dev)) = 28"
    by (simp add: wf_data_def IS31FL3235A_NUM_CHANNELS_def)
  show "\<forall>j k. j \<noteq> unat ch \<or> k \<noteq> 0 \<longrightarrow>
            bit (ctrl_cache (dev_data (snd (is31fl3235a_channel_enable ch en dev))) ! j) k =
            bit (ctrl_cache (dev_data dev) ! j) k"
    by (auto simp: channel_enable_proj nth_list_update_total enable_byte_bits)
  show "fst (is31fl3235a_channel_enable ch en dev) = OK \<longrightarrow>
            ctrl_enabled (ctrl_cache (dev_data (snd (is31fl3235a_channel_enable ch en dev)))
              ! unat ch) = en \<and>
            ctrl_scale (ctrl_cache (dev_data (snd (is31fl3235a_channel_enable ch en dev)))
              ! unat ch) = ctrl_scale (ctrl_cache (dev_data dev) ! unat ch)"
    by (simp add: channel_enable_proj len)
  show "\<forall>j k. j \<noteq> unat ch \<or> (k \<noteq> 1 \<and> k \<noteq> 2) \<longrightarrow>
            bit (ctrl_cache (dev_data (snd (is31fl3235a_set_current_scale ch scale dev))) ! j) k =
            bit (ctrl_cache (dev_data dev) ! j) k"
    by (auto simp: set_current_scale_proj nth_list_update_total scale_byte_bits)
  show "fst (is31fl3235a_set_current_scale ch scale dev) = OK \<longrightarrow>
            ctrl_scale (ctrl_cache (dev_data (snd (is31fl3235a_set_current_scale ch scale dev)))
              ! unat ch) = ucast scale \<and>
            ctrl_enabled (ctrl_cache (dev_data (snd (is31fl3235a_set_current_scale ch scale dev)))
              ! unat ch) = ctrl_enabled (ctrl_cache (dev_data dev) ! unat ch)"
    by (simp add: set_current_scale_proj len)
  show "unat ch < 28 \<and> scale \<le> 3 \<and> transport_ok (dev_env dev) \<longrightarrow>
            (let r1 = is31fl3235a_channel_enable ch False dev;
                 r2 = is31fl3235a_set_current_scale ch scale (snd r1);
                 r3 = is31fl3235a_channel_enable ch True (snd r2)
             in fst r1 = OK \<and> fst r2 = OK \<and> fst r3 = OK \<and>
                ctrl_enabled (ctrl_cache (dev_data (snd r3)) ! unat ch) \<and>
                ctrl_scale (ctrl_cache (dev_data (snd r3)) ! unat ch) = ucast scale)"
  proof (intro impI, elim conjE)
    assume ch: "unat ch < 28" and sc: "scale \<le> 3" and t0: "transport_ok (dev_env dev)"
    define d1 where "d1 = snd (is31fl3235a_channel_enable ch False dev)"
    define d2 where "d2 = snd (is31fl3235a_set_current_scale ch scale d1)"
    define d3 where "d3 = snd (is31fl3235a_channel_enable ch True d2)"
    from sc have nsc: "\<not> 3 < scale" by (simp add: not_less)
    from t0 have n0: "\<not> i2c_next (dev_env dev) < 0" by (rule transport_ok_next)
    have t1: "transport_ok (dev_env d1)"
      by (rule transport_ok_tl2 [OF t0]) (use ch n0 in \<open>simp add: d1_def channel_enable_proj\<close>)
    then have n1: "\<not> i2c_next (dev_env d1) < 0" by (rule transport_ok_next)
    have t2: "transport_ok (dev_env d2)"
      by (rule transport_ok_tl2 [OF t1])
         (use ch nsc n1 in \<open>simp add: d2_def set_current_scale_proj\<close>)
    then have n2: "\<not> i2c_next (dev_env d2) < 0" by (rule transport_ok_next)
    have ok1: "fst (is31fl3235a_channel_enable ch False dev) = OK"
      using ch t0 n0 by (simp add: channel_enable_proj)
    have ok2: "fst (is31fl3235a_set_current_scale ch scale d1) = OK"
      using ch sc t1 n1 by (simp add: set_current_scale_proj)
    have ok3: "fst (is31fl3235a_channel_enable ch True d2) = OK"
      using ch t2 n2 by (simp add: channel_enable_proj)
    have c1: "ctrl_cache (dev_data d1) =
        (ctrl_cache (dev_data dev))[unat ch := enable_byte (ctrl_cache (dev_data dev) ! unat ch) False]"
      using ch n0 by (simp add: d1_def channel_enable_proj)
    have c2: "ctrl_cache (dev_data d2) =
        (ctrl_cache (dev_data d1))[unat ch := scale_byte (ctrl_cache (dev_data d1) ! unat ch) scale]"
      using ch sc n1 by (simp add: d2_def set_current_scale_proj)
    have c3: "ctrl_cache (dev_data d3) =
        (ctrl_cache (dev_data d2))[unat ch := enable_byte (ctrl_cache (dev_data d2) ! unat ch) True]"
      using ch n2 by (simp add: d3_def channel_enable_proj)
    have "ctrl_enabled (ctrl_cache (dev_data d3) ! unat ch)"
      "ctrl_scale (ctrl_cache (dev_data d3) ! unat ch) = ucast scale"
      using ch sc len by (simp_all add: c3 c2 c1)
    with ok1 ok2 ok3 show "let r1 = is31fl3235a_channel_enable ch False dev;
                 r2 = is31fl3235a_set_current_scale ch scale (snd r1);
                 r3 = is31fl3235a_channel_enable ch True (snd r2)
             in fst r1 = OK \<and> fst r2 = OK \<and> fst r3 = OK \<and>
                ctrl_enabled (ctrl_cache (dev_data (snd r3)) ! unat ch) \<and>
                ctrl_scale (ctrl_cache (dev_data (snd r3)) ! unat ch) = ucast scale"
      by (simp add: Let_def d1_def d2_def d3_def)
  qed
qed

theorem scale_enable_independence_witness:
  "wf_data (dev_data (example_device [])) \<and>
   fst (is31fl3235a_channel_enable 3 True (example_device [])) = OK \<and>
   ctrl_enabled (ctrl_cache (dev_data (snd (is31fl3235a_channel_enable 3 True
     (example_device [])))) ! 3) \<and>
   fst (is31fl3235a_set_current_scale 3 1 (example_device [])) = OK \<and>
   ctrl_scale (ctrl_cache (dev_data (snd (is31fl3235a_set_current_scale 3 1
     (example_device [])))) ! 3) = 1 \<and>
   unat (3 :: u8) < 28 \<and> (1 :: u32) \<le> 3 \<and> transport_ok (dev_env (example_device [])) \<and>
   ctrl_enabled (ctrl_cache (dev_data (snd (is31fl3235a_channel_enable 3 True
     (snd (is31fl3235a_set_current_scale 3 1
       (snd (is31fl3235a_channel_enable 3 False (example_device [])))))))) ! 3) \<and>
   ctrl_scale (ctrl_cache (dev_data (snd (is31fl3235a_channel_enable 3 True
     (snd (is31fl3235a_set_current_scale 3 1
       (snd (is31fl3235a_channel_enable 3 False (example_device [])))))))) ! 3) = 1"
proof -
  have wf: "wf_data (dev_data (example_device []))" by simp
  have ok: "fst (is31fl3235a_channel_enable 3 True (example_device [])) = OK"
    "fst (is31fl3235a_set_current_scale 3 1 (example_device [])) = OK"
    "transport_ok (dev_env (example_device []))"
    by (simp_all add: channel_enable_proj set_current_scale_proj transport_ok_def)
  from scale_enable_independence [OF wf, where ch = 3 and en = True and scale = 1] ok wf
  show ?thesis by (simp add: Let_def)
qed

subsection \<open>Deferred updates\<close>

text \<open>
  C6.  For a valid channel and a succeeding transport,
  \<^verbatim>\<open>set_brightness_no_update(led, v)\<close> succeeds, stores \<open>v\<close> in the PWM cache and makes
  exactly one bus call, the write of \<open>v\<close> to the channel's PWM register: no write to
  the update register, so what the chip shows on its outputs is what it showed before.
  A following \<^verbatim>\<open>update()\<close> makes exactly one bus call, the write to the update
  register, after which the chip shows \<open>v\<close> on that channel.
\<close>

theorem no_update_deferral:
  assumes wf: "wf_data (dev_data dev)" and led: "unat led < 28"
    and ok: "transport_ok (dev_env dev)"
  shows "let r1 = is31fl3235a_set_brightness_no_update led val dev; d1 = snd r1;
             r2 = is31fl3235a_update d1; d2 = snd r2
         in fst r1 = OK \<and>
            pwm_cache (dev_data d1) ! unat led = val \<and>
            new_events dev d1 =
              [I2C_Write [IS31FL3235A_PWM_REG (unat led), val] (i2c_next (dev_env dev))] \<and>
            trigger_writes (new_events dev d1) = 0 \<and>
            applied (chip_after (trace (dev_env d1)) c) =
              applied (chip_after (trace (dev_env dev)) c) \<and>
            fst r2 = OK \<and>
            pwm_cache (dev_data d2) = pwm_cache (dev_data d1) \<and>
            new_events d1 d2 =
              [I2C_Write [IS31FL3235A_REG_UPDATE, IS31FL3235A_UPDATE_TRIGGER]
                 (i2c_next (dev_env d1))] \<and>
            trigger_writes (new_events d1 d2) = 1 \<and>
            applied (chip_after (trace (dev_env d2)) c) (IS31FL3235A_PWM_REG (unat led)) = val"
proof -
  from ok have n0: "\<not> i2c_next (dev_env dev) < 0" by (rule transport_ok_next)
  from ok have n1: "\<not> i2c_next ((dev_env dev)\<lparr>i2c_rets := tl (i2c_rets (dev_env dev))\<rparr>) < 0"
    by simp
  from wf led have len: "unat led < length (pwm_cache (dev_data dev))"
    by (simp add: wf_data_def IS31FL3235A_NUM_CHANNELS_def)
  show ?thesis
    using led n0 n1 len reg_not_update(1) [OF led]
    by (simp add: Let_def set_brightness_no_update_run is31fl3235a_update_def new_events_def)
qed

theorem no_update_deferral_witness:
  "wf_data (dev_data (example_device [])) \<and> unat (0 :: u32) < 28 \<and>
   transport_ok (dev_env (example_device [])) \<and>
   fst (is31fl3235a_set_brightness_no_update 0 100 (example_device [])) = OK \<and>
   pwm_cache (dev_data (snd (is31fl3235a_set_brightness_no_update 0 100 (example_device []))))
     ! 0 = 100 \<and>
   trigger_writes (new_events (example_device [])
     (snd (is31fl3235a_set_brightness_no_update 0 100 (example_device [])))) = 0 \<and>
   applied (chip_after (trace (dev_env
     (snd (is31fl3235a_set_brightness_no_update 0 100 (example_device [])))))
     \<lparr>staged = \<lambda>_. 0, applied = \<lambda>_. 0\<rparr>) (IS31FL3235A_PWM_REG 0) = 0 \<and>
   fst (is31fl3235a_update
     (snd (is31fl3235a_set_brightness_no_update 0 100 (example_device [])))) = OK \<and>
   trigger_writes (new_events
     (snd (is31fl3235a_set_brightness_no_update 0 100 (example_device [])))
     (snd (is31fl3235a_update
       (snd (is31fl3235a_set_brightness_no_update 0 100 (example_device [])))))) = 1 \<and>
   applied (chip_after (trace (dev_env (snd (is31fl3235a_update
     (snd (is31fl3235a_set_brightness_no_update 0 100 (example_device [])))))))
     \<lparr>staged = \<lambda>_. 0, applied = \<lambda>_. 0\<rparr>) (IS31FL3235A_PWM_REG 0) = 100"
proof -
  have wf: "wf_data (dev_data (example_device []))" by simp
  have led: "unat (0 :: u32) < 28" by simp
  have ok: "transport_ok (dev_env (example_device []))" by (simp add: transport_ok_def)
  have start: "chip_after (trace (dev_env (example_device []))) \<lparr>staged = \<lambda>_. 0, applied = \<lambda>_. 0\<rparr> =
      \<lparr>staged = \<lambda>_. 0, applied = \<lambda>_. 0\<rparr>"
    by (simp add: chip_after_def)
  from no_update_deferral [OF wf led ok, of 100 "\<lparr>staged = \<lambda>_. 0, applied = \<lambda>_. 0\<rparr>"]
    wf led ok start
  show ?thesis by (simp add: Let_def reg_not_update)
qed

end
